theory Spec2Isabelle
  imports Main "HOL-Library.AList"
begin

unbundle bit_operations_syntax

section \<open>Python values and string primitives\<close>

text \<open>
  The two classes of the repository (\<open>DataCleaner\<close> and \<open>MedicalDataProcessor\<close>) work on
  Python strings and on the cells of a pandas data frame. A cell is a missing value
  (\<open>None\<close> or \<open>NaN\<close>, which \<open>pd.isna\<close> does not tell apart), a string, or an integer.
  Numeric cells are integers; floating-point cells are outside the model.

  A string is a list of characters, and a character is a Unicode code point below 256
  (\<open>CHR 0xE9\<close> is U+00E9): text with a code point from U+0100 on is outside the type.
  On these code points the character classes below are those of Python 3 for \<open>str\<close>:
  \<open>str.isspace\<close> and the regex class \<open>\s\<close>, \<open>str.isalnum\<close> and the regex class \<open>\w\<close>
  (which also decides \<open>\b\<close>), and \<open>str.lower\<close>, which is also how a pattern compiled
  with \<open>re.IGNORECASE\<close> compares a character with an ASCII letter.
\<close>

datatype cell = Null | Str string | Num int

datatype error = KeyError string | ValueError "string list" | TypeError | IndexError

definition ascii_lowercase :: string where
  "ascii_lowercase = ''abcdefghijklmnopqrstuvwxyz''"

definition ascii_uppercase :: string where
  "ascii_uppercase = ''ABCDEFGHIJKLMNOPQRSTUVWXYZ''"

definition ascii_digits :: string where
  "ascii_digits = ''0123456789''"

text \<open>The capital letters U+00C0 to U+00DE (without the multiplication sign U+00D7), and
  the small letters \<open>str.lower\<close> maps them to, U+00E0 to U+00FE (without the division sign
  U+00F7), in the same order.\<close>

definition latin1_uppercase :: string where
  "latin1_uppercase =
     [CHR 0xC0, CHR 0xC1, CHR 0xC2, CHR 0xC3, CHR 0xC4, CHR 0xC5, CHR 0xC6, CHR 0xC7,
      CHR 0xC8, CHR 0xC9, CHR 0xCA, CHR 0xCB, CHR 0xCC, CHR 0xCD, CHR 0xCE, CHR 0xCF,
      CHR 0xD0, CHR 0xD1, CHR 0xD2, CHR 0xD3, CHR 0xD4, CHR 0xD5, CHR 0xD6, CHR 0xD8,
      CHR 0xD9, CHR 0xDA, CHR 0xDB, CHR 0xDC, CHR 0xDD, CHR 0xDE]"

definition latin1_lowercase :: string where
  "latin1_lowercase =
     [CHR 0xE0, CHR 0xE1, CHR 0xE2, CHR 0xE3, CHR 0xE4, CHR 0xE5, CHR 0xE6, CHR 0xE7,
      CHR 0xE8, CHR 0xE9, CHR 0xEA, CHR 0xEB, CHR 0xEC, CHR 0xED, CHR 0xEE, CHR 0xEF,
      CHR 0xF0, CHR 0xF1, CHR 0xF2, CHR 0xF3, CHR 0xF4, CHR 0xF5, CHR 0xF6, CHR 0xF8,
      CHR 0xF9, CHR 0xFA, CHR 0xFB, CHR 0xFC, CHR 0xFD, CHR 0xFE]"

text \<open>The other code points below 256 that are letters or numeric: the ordinal indicators
  U+00AA and U+00BA, the micro sign U+00B5, the superscript digits U+00B2, U+00B3 and
  U+00B9, the fractions U+00BC to U+00BE, and the small letters U+00DF and U+00FF, which
  have no capital below 256.\<close>

definition latin1_other_alnum :: string where
  "latin1_other_alnum =
     [CHR 0xAA, CHR 0xB2, CHR 0xB3, CHR 0xB5, CHR 0xB9, CHR 0xBA, CHR 0xBC, CHR 0xBD,
      CHR 0xBE, CHR 0xDF, CHR 0xFF]"

text \<open>\<open>c.isalnum()\<close>\<close>

definition is_alnum :: "char \<Rightarrow> bool" where
  "is_alnum c = (c \<in> set (ascii_lowercase @ ascii_uppercase @ ascii_digits @
                            latin1_lowercase @ latin1_uppercase @ latin1_other_alnum))"

text \<open>The regex class \<open>\w\<close>: letters, digits and the underscore.\<close>

definition is_word :: "char \<Rightarrow> bool" where
  "is_word c = (is_alnum c \<or> c = CHR ''_'')"

text \<open>\<open>c.isspace()\<close>, the regex class \<open>\s\<close> and the characters \<open>str.strip()\<close> removes:
  tab, line feed, vertical tab, form feed, carriage return, the four separators U+001C to
  U+001F, space, next line U+0085 and no-break space U+00A0.\<close>

definition is_space :: "char \<Rightarrow> bool" where
  "is_space c = (c \<in> set [CHR 0x09, CHR 0x0A, CHR 0x0B, CHR 0x0C, CHR 0x0D,
                           CHR 0x1C, CHR 0x1D, CHR 0x1E, CHR 0x1F, CHR '' '',
                           CHR 0x85, CHR 0xA0])"

text \<open>\<open>c.lower()\<close>: a capital letter becomes its small letter, and every other character
  stays as it is.\<close>

definition lower_char :: "char \<Rightarrow> char" where
  "lower_char c =
     (case map_of (zip (ascii_uppercase @ latin1_uppercase)
                       (ascii_lowercase @ latin1_lowercase)) c of
        Some l \<Rightarrow> l
      | None \<Rightarrow> c)"

text \<open>\<open>s.lower()\<close>\<close>

definition lower :: "string \<Rightarrow> string" where
  "lower s = map lower_char s"

text \<open>\<open>s.strip()\<close>\<close>

definition strip :: "string \<Rightarrow> string" where
  "strip s = rev (dropWhile is_space (rev (dropWhile is_space s)))"

text \<open>\<open>s.rstrip(chars)\<close>\<close>

definition rstrip_chars :: "string \<Rightarrow> string \<Rightarrow> string" where
  "rstrip_chars chars s = rev (dropWhile (\<lambda>c. c \<in> set chars) (rev s))"

text \<open>\<open>s.replace(old, new)\<close> for a one-character \<open>old\<close>.\<close>

definition replace_char :: "char \<Rightarrow> string \<Rightarrow> string \<Rightarrow> string" where
  "replace_char old new s = concat (map (\<lambda>c. if c = old then new else [c]) s)"

text \<open>\<open>s.split(sep)\<close> for a one-character separator: the empty string gives one empty
  token, and two separators in a row give an empty token between them.\<close>

fun split_on :: "char \<Rightarrow> string \<Rightarrow> string list" where
  "split_on sep [] = [[]]"
| "split_on sep (c # cs) =
     (if c = sep then [] # split_on sep cs
      else (case split_on sep cs of
              [] \<Rightarrow> [[c]]
            | w # ws \<Rightarrow> (c # w) # ws))"

text \<open>\<open>sep.join(xs)\<close>\<close>

fun join :: "string \<Rightarrow> string list \<Rightarrow> string" where
  "join sep [] = []"
| "join sep [x] = x"
| "join sep (x # y # ys) = x @ sep @ join sep (y # ys)"

text \<open>\<open>str(n)\<close> of an integer, and \<open>str(x)\<close> of a cell.\<close>

fun str_nat :: "nat \<Rightarrow> string" where
  "str_nat n = (if n < 10 then [ascii_digits ! n]
                else str_nat (n div 10) @ [ascii_digits ! (n mod 10)])"

definition str_int :: "int \<Rightarrow> string" where
  "str_int i = (if i < 0 then CHR ''-'' # str_nat (nat (- i)) else str_nat (nat i))"

fun py_str :: "cell \<Rightarrow> string" where
  "py_str Null = ''None''"
| "py_str (Str s) = s"
| "py_str (Num i) = str_int i"

section \<open>The referral segmenter (\<open>format_referral\<close>)\<close>

text \<open>\<open>self.keywords\<close> (renamed: \<open>keywords\<close> is reserved in theory headers) and \<open>self.ct_types\<close>.\<close>

definition contrast_keywords :: "string list" where
  "contrast_keywords = [''w'', ''wo'', ''with'', ''without'', ''wo/w'']"

definition ct_types :: "string list" where
  "ct_types = [''angiography'', ''arthrography'', ''enterography'', ''fistulogram'',
               ''urography'', ''venography'', ''quantitative'', ''scan'']"

text \<open>The loop \<open>for index, element in enumerate(xs): if element in vocab: ...; break\<close>:
  the index of the first element that is in the vocabulary, if there is one.\<close>

fun first_index :: "string list \<Rightarrow> string list \<Rightarrow> nat option" where
  "first_index vocab [] = None"
| "first_index vocab (x # xs) =
     (if x \<in> set vocab then Some 0 else map_option Suc (first_index vocab xs))"

text \<open>\<open>elements = [s.strip().replace(',', '') for s in row.split(' ')]\<close>\<close>

definition referral_elements :: "string \<Rightarrow> string list" where
  "referral_elements row = map (\<lambda>s. replace_char CHR '','' [] (strip s)) (split_on CHR '' '' row)"

text \<open>The second half of \<open>format_referral\<close>, from \<open>other_elements = elements[ct_index + 1:]\<close>
  to the \<open>return\<close>.\<close>

definition body_and_contrast ::
  "string list \<Rightarrow> string \<Rightarrow> nat \<Rightarrow> string option \<times> string option \<times> string option" where
  "body_and_contrast elements exam ct_index =
     (let other_elements = drop (ct_index + 1) elements in
      case first_index contrast_keywords other_elements of
        Some keyword_index \<Rightarrow>
          (Some exam,
           Some (join '' '' (take keyword_index other_elements)),
           Some (join '' '' (drop keyword_index other_elements)))
      | None \<Rightarrow> (Some exam, Some (join '' '' other_elements), None))"

text \<open>\<open>format_referral\<close>: a row that is not a string gives three \<open>None\<close>; so does an
  exception inside the \<open>try\<close> block, and the only expression there that can raise on a list
  of strings is \<open>elements[0]\<close> (an \<open>IndexError\<close> on the empty list).\<close>

definition format_referral :: "cell \<Rightarrow> string option \<times> string option \<times> string option" where
  "format_referral row =
     (case row of
        Str s \<Rightarrow>
          (let elements = referral_elements s in
           case first_index ct_types elements of
             Some ct_index \<Rightarrow>
               body_and_contrast elements (join '' '' (take (ct_index + 1) elements)) ct_index
           | None \<Rightarrow>
               (case elements of
                  [] \<Rightarrow> (None, None, None)
                | e0 # _ \<Rightarrow> body_and_contrast elements e0 0))
      | _ \<Rightarrow> (None, None, None))"

section \<open>The recommendation extractor (\<open>clean_recommendation\<close>)\<close>

text \<open>
  \<open>re.search(r"(Recommendation|Exam):\s*([^.\n]+)", text, re.IGNORECASE)\<close> is modelled as
  the backtracking matcher it is. \<open>label_rest label s\<close> matches one alternative of the first
  group, ignoring case, at the start of \<open>s\<close> and gives what follows it.
\<close>

definition label_rest :: "string \<Rightarrow> string \<Rightarrow> string option" where
  "label_rest label s =
     (if lower (take (length label) s) = label then Some (drop (length label) s) else None)"

text \<open>The second group, \<open>([^.\n]+)\<close>: the longest run of characters other than a period
  and a line feed; the match fails when the run is empty.\<close>

definition capture :: "string \<Rightarrow> string option" where
  "capture s =
     (case takeWhile (\<lambda>c. c \<noteq> CHR ''.'' \<and> c \<noteq> CHR 0x0A) s of
        [] \<Rightarrow> None
      | g \<Rightarrow> Some g)"

text \<open>\<open>\s*([^.\n]+)\<close>: the star is greedy, so a space is first given to \<open>\s*\<close>; when the
  rest of the pattern then fails, the matcher backtracks and starts the group at that
  space.\<close>

fun spaces_then_capture :: "string \<Rightarrow> string option" where
  "spaces_then_capture [] = capture []"
| "spaces_then_capture (c # cs) =
     (if is_space c
      then (case spaces_then_capture cs of
              Some g \<Rightarrow> Some g
            | None \<Rightarrow> capture (c # cs))
      else capture (c # cs))"

definition after_label :: "string \<Rightarrow> string \<Rightarrow> string option" where
  "after_label label s =
     (case label_rest label s of
        None \<Rightarrow> None
      | Some r \<Rightarrow>
          (case r of
             [] \<Rightarrow> None
           | c # r' \<Rightarrow> if c = CHR '':'' then spaces_then_capture r' else None))"

text \<open>The whole pattern, anchored at the start of \<open>s\<close>: the contents of group 2.\<close>

definition match_here :: "string \<Rightarrow> string option" where
  "match_here s =
     (case after_label ''recommendation'' s of
        Some g \<Rightarrow> Some g
      | None \<Rightarrow> after_label ''exam'' s)"

text \<open>\<open>re.search\<close> tries the start positions from left to right and stops at the first
  one where the pattern matches.\<close>

fun re_search_label :: "string \<Rightarrow> string option" where
  "re_search_label [] = match_here []"
| "re_search_label (c # cs) =
     (case match_here (c # cs) of
        Some g \<Rightarrow> Some g
      | None \<Rightarrow> re_search_label cs)"

text \<open>\<open>clean_recommendation\<close>, the same in both classes. \<open>re.search\<close> raises a
  \<open>TypeError\<close> on a value that is not a string.\<close>

definition clean_recommendation :: "cell \<Rightarrow> error + string" where
  "clean_recommendation text =
     (case text of
        Str t \<Rightarrow>
          (case re_search_label t of
             Some g \<Rightarrow> Inr (strip g)
           | None \<Rightarrow> Inr (rstrip_chars ''.'' (strip (replace_char (CHR 0x0A) '' '' t))))
      | _ \<Rightarrow> Inl TypeError)"

section \<open>The taxonomy encoders\<close>

definition exam_categories :: "(string \<times> string list) list" where
  "exam_categories =
    [(''CT Scans'',
        [''ct'', ''ct angiography'', ''ct enterography'', ''ct high resolution'',
         ''ct colonography'', ''ct venography'', ''ct maxillofacial'',
         ''ct pancreatitis protocol'', ''ct retroperitoneal'',
         ''ct angiography retroperitoneum'', ''ct retroperitoneal space'',
         ''ct retroperitineal space'', ''ct pancreas protoco'', ''ct enteroclysis'',
         ''ct angiography perfusion'', ''ct angiography aortography'',
         ''ct arteriography'', ''ct artrography'', ''computed tomography ct scan'',
         ''high resolution ct scan'', ''ct, x-ray'', ''ct, ct urography'', ''ct, xray'']),
     (''MRI'',
        [''mri'', ''mri enterography'', ''mri angiography'', ''mri brain and mr angiography'',
         ''cardiac mri'', ''pelvic mri'', ''mrcp'', ''mrv'']),
     (''Ultrasound and Doppler Studies'',
        [''ultrasound'', ''doppler ultrasound'', ''carotid duplex ultrasound'',
         ''pelvic ultrasound'', ''arterial/venous duplex ultrasound'', ''duplex ultrasound'']),
     (''Radiography and X-Ray'',
        [''xray'', ''mammogram'', ''mammography'', ''radiography'', ''dental ct scan'',
         ''barium swallow study'', ''x-ray'']),
     (''Nuclear Medicine'',
        [''petct'', ''nuclear bone scan'', ''bone scan'', ''whole body bone scan'',
         ''pet scan'', ''dexa scan'']),
     (''Invasive and Interventional Procedures'',
        [''cervical nerve root block'', ''lumbar nerve root block'',
         ''pudendal nerve root block'', ''catheter'', ''biopsy'', ''colonoscopy'',
         ''retrograde pyelogram'', ''esophagography'', ''cystoscopy'', ''cystography'',
         ''esophagogastroduodenoscopy'', ''epidural steroid injection'']),
     (''Cardiovascular Specific Exams'',
        [''echocardiogram'', ''stress test'', ''coronary angiography'',
         ''stress echocardiogram'']),
     (''Health Check-ups and Other Exams'',
        [''general health check-up'', ''general physical exam'', ''complete blood count'',
         ''general check-up'', ''physical examination'', ''comprehensive metabolic panel'',
         ''complete body scan'', ''check-up'', ''general check up''])]"

definition organ_clusters :: "(string \<times> string list) list" where
  "organ_clusters =
    [(''head'',
        [''head'', ''cranial'', ''skull'', ''brain'', ''cerebral'', ''facial'', ''sinus'',
         ''paranasal sinuses'', ''temporal bone'', ''face'', ''orbit'',
         ''temporomandibular joints'', ''maxilla'', ''sinuses'', ''mandible'',
         ''pituitary gland'', ''maxillofacial area'', ''maxillofacial'', ''nasopharynx'',
         ''salivary glands'', ''maxillofacial region'', ''mouth area'', ''tongue'', ''scalp'',
         ''pituitary'', ''eye'', ''intracranial'', ''ear'', ''temporomandibular joint'']),
     (''neck'',
        [''neck'', ''cervical'', ''throat'', ''nuchal'', ''larynx'', ''esophagus'',
         ''carotid arteries'', ''carotid'', ''parotid gland'', ''thyroid'']),
     (''thorax'',
        [''thorax'', ''chest'', ''thoracic'', ''pulmonary'', ''heart'', ''cardiac'', ''breast'',
         ''mediastinum'', ''aorta'', ''aortic'', ''coronary'', ''coronaries'',
         ''aorta branches'', ''sternoclavicular joint'', ''breasts'', ''trachea'', ''lung'',
         ''lungs'', ''clavicula'', ''scapula bone'', ''joint sternoclavicular'',
         ''subclavian artery'', ''coronary arteries'']),
     (''abdomen_pelvis'',
        [''abdomen'', ''abdominal'', ''stomach'', ''intestinal'', ''gastrointestinal'',
         ''liver'', ''pancreas'', ''spleen'', ''small bowel'', ''colon'',
         ''colonography colon'', ''gallbladder'', ''kidney'', ''kidneys'', ''urinary organs'',
         ''biliary tract'', ''biliary system'', ''renal'', ''adrenal'', ''adrenal gland'',
         ''adrenal glands'', ''pelvis'', ''pelvic'', ''hip'', ''inguinal'', ''pubic'',
         ''iliac vein'', ''urinary bladder'', ''urinary tract'', ''prostate'', ''uterus'',
         ''uterus and ovaries'']),
     (''upper_extremities'',
        [''upper'', ''arm'', ''shoulder'', ''elbow'', ''wrist'', ''hand'', ''scapula'',
         ''clavicle'', ''humerus'', ''right humerus'', ''ulna left'', ''forearm'',
         ''left forearm'', ''finger'', ''brachial plexus'', ''right thumb'']),
     (''lower_extremities'',
        [''lower'', ''leg'', ''knee'', ''knees'', ''foot'', ''thigh'', ''tibia'', ''femur'',
         ''calcaneus'', ''popliteal artery'', ''knees bilateral'', ''right malleolus'',
         ''femoral nerve left'', ''lower extremities'', ''iliofemoral arteries'', ''ankle'']),
     (''spine'',
        [''spine'', ''vertebral'', ''lumbar'', ''sacral'', ''spinal canal'', ''spinal cord'',
         ''spinal'', ''thoracic spine'']),
     (''skeletal'',
        [''joint'', ''bone'', ''bones'', ''skeletal'', ''skeleton'', ''extremities'',
         ''musculoskeletal'', ''musculoskeletal system'']),
     (''lymphatic'', [''lymph nodes'', ''lymphatic system'']),
     (''body'',
        [''whole body'', ''body'', ''full body'', ''various organs'', ''multiple organs'',
         ''extremities'', ''multiple organ systems'', ''muscular system'', ''skin'', ''limbs'',
         ''blood'', ''peripheral'', ''endocrine system'', ''muscles'', ''vascular region'',
         ''vascular system'', ''arterial system''])]"

text \<open>The local dictionaries of the two encoders; \<open>1 << k\<close> is \<open>push_bit k 1\<close>.\<close>

definition cluster_tokens :: "(string \<times> int) list" where
  "cluster_tokens =
    [(''head'', push_bit 0 1), (''neck'', push_bit 1 1), (''thorax'', push_bit 2 1),
     (''abdomen_pelvis'', push_bit 3 1), (''upper_extremities'', push_bit 4 1),
     (''lower_extremities'', push_bit 5 1), (''spine'', push_bit 6 1),
     (''skeletal'', push_bit 7 1), (''lymphatic'', push_bit 8 1), (''body'', push_bit 9 1)]"

definition categories_to_flags :: "(string \<times> int) list" where
  "categories_to_flags =
    [(''CT Scans'', push_bit 0 1), (''MRI'', push_bit 1 1),
     (''Ultrasound and Doppler Studies'', push_bit 2 1),
     (''Radiography and X-Ray'', push_bit 3 1), (''Nuclear Medicine'', push_bit 4 1),
     (''Invasive and Interventional Procedures'', push_bit 5 1),
     (''Cardiovascular Specific Exams'', push_bit 6 1),
     (''Health Check-ups and Other Exams'', push_bit 7 1)]"

text \<open>The cleaning both encoders start with:
  \<open>re.sub(r"[^\w\s]", "", re.sub(r"-", " ", str(phrase)).lower())\<close>.\<close>

definition clean_phrase :: "string \<Rightarrow> string" where
  "clean_phrase s =
     filter (\<lambda>c. is_word c \<or> is_space c) (lower (replace_char CHR ''-'' '' '' s))"

text \<open>
  \<open>re.search(r"\b" + re.escape(term) + r"\b", text)\<close>. \<open>re.escape\<close> makes the term a
  literal. \<open>\b\<close> holds between two positions when exactly one of the characters on its two
  sides is a word character, the outside of the string counting as a non-word character.
  \<open>word_boundary prev s\<close> is \<open>\b\<close> right before \<open>s\<close>, where \<open>prev\<close> says whether the
  character before is a word character.
\<close>

definition word_boundary :: "bool \<Rightarrow> string \<Rightarrow> bool" where
  "word_boundary prev s = (prev \<noteq> (case s of [] \<Rightarrow> False | c # _ \<Rightarrow> is_word c))"

definition term_here :: "bool \<Rightarrow> string \<Rightarrow> string \<Rightarrow> bool" where
  "term_here prev term s =
     (if word_boundary prev s
      then (if take (length term) s = term
            then word_boundary (if term = [] then prev else is_word (last term))
                   (drop (length term) s)
            else False)
      else False)"

fun scan_term :: "bool \<Rightarrow> string \<Rightarrow> string \<Rightarrow> bool" where
  "scan_term prev term [] = term_here prev term []"
| "scan_term prev term (c # cs) =
     (if term_here prev term (c # cs) then True else scan_term (is_word c) term cs)"

definition re_search_word :: "string \<Rightarrow> string \<Rightarrow> bool" where
  "re_search_word term text = scan_term False term text"

text \<open>The loop of \<open>tokenize_and_flag_organs\<close>, over \<open>self.organ_clusters.items()\<close>;
  \<open>cluster_tokens[cluster]\<close> raises a \<open>KeyError\<close> for a cluster without a token.\<close>

fun organ_loop :: "(string \<times> string list) list \<Rightarrow> string \<Rightarrow> int \<Rightarrow> error + int" where
  "organ_loop [] cleaned_phrase binary_flag = Inr binary_flag"
| "organ_loop ((cluster, terms) # rest) cleaned_phrase binary_flag =
     (if list_ex (\<lambda>term. re_search_word term cleaned_phrase) terms
      then (case map_of cluster_tokens cluster of
              None \<Rightarrow> Inl (KeyError cluster)
            | Some token \<Rightarrow> organ_loop rest cleaned_phrase (binary_flag OR token))
      else organ_loop rest cleaned_phrase binary_flag)"

definition tokenize_and_flag_organs :: "cell \<Rightarrow> error + cell" where
  "tokenize_and_flag_organs phrase =
     (if phrase = Null then Inr Null
      else map_sum id Num (organ_loop organ_clusters (clean_phrase (py_str phrase)) 0))"

text \<open>The loop of \<open>map_exam_to_binary_flag\<close>, over \<open>categories_to_flags.items()\<close>;
  \<open>self.exam_categories[category]\<close> raises a \<open>KeyError\<close> for a category without terms.\<close>

fun exam_loop :: "(string \<times> int) list \<Rightarrow> string \<Rightarrow> int \<Rightarrow> error + int" where
  "exam_loop [] cleaned_exam binary_flag = Inr binary_flag"
| "exam_loop ((category, flag) # rest) cleaned_exam binary_flag =
     (case map_of exam_categories category of
        None \<Rightarrow> Inl (KeyError category)
      | Some terms \<Rightarrow>
          (if list_ex (\<lambda>term. re_search_word term cleaned_exam) terms
           then exam_loop rest cleaned_exam (binary_flag OR flag)
           else exam_loop rest cleaned_exam binary_flag))"

definition map_exam_to_binary_flag :: "cell \<Rightarrow> error + cell" where
  "map_exam_to_binary_flag exam_name =
     (if exam_name = Null then Inr Null
      else map_sum id Num (exam_loop categories_to_flags (clean_phrase (py_str exam_name)) 0))"

section \<open>The contrast standardizer and the data frame operations\<close>

text \<open>
  A pandas \<open>Series\<close> is the list of its cells and a \<open>DataFrame\<close> is the list of its
  columns, each with its name. \<open>df[col]\<close> raises a \<open>KeyError\<close> when there is no such
  column; \<open>df[col] = s\<close> replaces the column where it stands or appends it.
\<close>

type_synonym series = "cell list"

type_synonym dataframe = "(string \<times> series) list"

definition get_column :: "dataframe \<Rightarrow> string \<Rightarrow> error + series" where
  "get_column df col = (case map_of df col of None \<Rightarrow> Inl (KeyError col) | Some s \<Rightarrow> Inr s)"

definition set_column :: "string \<Rightarrow> series \<Rightarrow> dataframe \<Rightarrow> dataframe" where
  "set_column col s df = AList.update col s df"

text \<open>\<open>series.apply(f)\<close>: the first exception of \<open>f\<close> ends the call.\<close>

fun series_apply :: "(cell \<Rightarrow> error + cell) \<Rightarrow> series \<Rightarrow> error + series" where
  "series_apply f [] = Inr []"
| "series_apply f (x # xs) =
     (case f x of
        Inl e \<Rightarrow> Inl e
      | Inr y \<Rightarrow> (case series_apply f xs of Inl e \<Rightarrow> Inl e | Inr ys \<Rightarrow> Inr (y # ys)))"

text \<open>\<open>series.map(d)\<close> for a dictionary with string keys: a value that is not a key
  becomes \<open>NaN\<close>.\<close>

definition map_value :: "(string \<times> cell) list \<Rightarrow> cell \<Rightarrow> cell" where
  "map_value d v =
     (case v of
        Str s \<Rightarrow> (case map_of d s of Some r \<Rightarrow> r | None \<Rightarrow> Null)
      | _ \<Rightarrow> Null)"

definition series_map :: "(string \<times> cell) list \<Rightarrow> series \<Rightarrow> series" where
  "series_map d column = map (map_value d) column"

text \<open>\<open>a.fillna(b)\<close> for two series over the same rows.\<close>

definition fillna :: "series \<Rightarrow> series \<Rightarrow> series" where
  "fillna a b = map (\<lambda>(x, y). if x = Null then y else x) (zip a b)"

definition contrast_standardization_map :: "(string \<times> cell) list" where
  "contrast_standardization_map =
    [(''with iv contrast '', Str ''with iv contrast''),
     (''without iv contrast '', Str ''without iv contrast''),
     ('' with iv contrast'', Str ''with iv contrast''),
     ('' with or without iv contrast'', Str ''with or without iv contrast''),
     ('' without iv contrast'', Str ''without iv contrast''),
     (''with or without iv contrast '', Str ''with or without iv contrast'')]"

definition standardize_contrast :: "series \<Rightarrow> series" where
  "standardize_contrast column = fillna (series_map contrast_standardization_map column) column"

text \<open>The dictionary literal inside \<open>encode_binary_flags_contrast\<close>, and what it does to
  one cell of the column.\<close>

definition contrast_flag_map :: "(string \<times> cell) list" where
  "contrast_flag_map =
    [(''with iv contrast'', Num 1),
     (''without iv contrast'', Num 0),
     (''with or without iv contrast'', Num 2)]"

definition encode_contrast :: "cell \<Rightarrow> cell" where
  "encode_contrast v = map_value contrast_flag_map v"

text \<open>The methods that change the data frame in place return its state after the call
  together with the outcome, an exception or a value.\<close>

definition encode_binary_flags_contrast :: "dataframe \<Rightarrow> string \<Rightarrow> dataframe \<times> (error + unit)" where
  "encode_binary_flags_contrast df column =
     (case get_column df column of
        Inl e \<Rightarrow> (df, Inl e)
      | Inr s \<Rightarrow> (set_column (column @ ''_flags'') (series_map contrast_flag_map s) df, Inr ()))"

definition process_data ::
  "dataframe \<Rightarrow> string \<Rightarrow> string \<Rightarrow> string \<Rightarrow> dataframe \<times> (error + unit)" where
  "process_data df exam_column organ_column contrast_column =
     (case get_column df exam_column of
        Inl e \<Rightarrow> (df, Inl e)
      | Inr exams \<Rightarrow>
     (case series_apply map_exam_to_binary_flag exams of
        Inl e \<Rightarrow> (df, Inl e)
      | Inr exam_flags \<Rightarrow>
     (let df1 = set_column (exam_column @ ''_flags'') exam_flags df in
      case get_column df1 organ_column of
        Inl e \<Rightarrow> (df1, Inl e)
      | Inr organs \<Rightarrow>
     (case series_apply tokenize_and_flag_organs organs of
        Inl e \<Rightarrow> (df1, Inl e)
      | Inr organ_flags \<Rightarrow>
     (let df2 = set_column (organ_column @ ''_flags'') organ_flags df1 in
      case get_column df2 contrast_column of
        Inl e \<Rightarrow> (df2, Inl e)
      | Inr contrasts \<Rightarrow>
     (let df3 = set_column contrast_column (standardize_contrast contrasts) df2 in
      encode_binary_flags_contrast df3 contrast_column))))))"

text \<open>\<open>DataCleaner.check_columns\<close>, which no other method of the two classes calls.\<close>

definition check_columns :: "dataframe \<Rightarrow> string list \<Rightarrow> error + bool" where
  "check_columns df required_columns =
     (let missing_columns = filter (\<lambda>col. col \<notin> set (map fst df)) required_columns in
      if missing_columns \<noteq> [] then Inl (ValueError missing_columns) else Inr True)"

section \<open>The specification's wording, for comparison\<close>

text \<open>The definitions of this section follow the words of the specification, not the
  code; the theorems below compare them with the code.\<close>

text \<open>The specification's contrast codes: "with iv contrast" is 0, "without iv contrast"
  is 1, "with or without iv contrast" is 2, and anything else is null.\<close>

definition spec_encode_contrast :: "cell \<Rightarrow> cell" where
  "spec_encode_contrast v =
     (if v = Str ''with iv contrast'' then Num 0
      else if v = Str ''without iv contrast'' then Num 1
      else if v = Str ''with or without iv contrast'' then Num 2
      else Null)"

text \<open>"With any single trailing period removed".\<close>

definition spec_remove_single_trailing_period :: "string \<Rightarrow> string" where
  "spec_remove_single_trailing_period s =
     (if s \<noteq> [] \<and> last s = CHR ''.'' then butlast s else s)"

text \<open>"Occurs as a whole word (word-boundary-delimited, not a substring)": the text is some
  \<open>pre\<close>, then the term, then some \<open>post\<close>, with a word boundary on each side of the
  term.\<close>

definition occurs_as_whole_word :: "string \<Rightarrow> string \<Rightarrow> bool" where
  "occurs_as_whole_word term text =
     (\<exists>pre post. text = pre @ term @ post \<and>
        word_boundary (pre \<noteq> [] \<and> is_word (last pre)) (term @ post) \<and>
        word_boundary (pre @ term \<noteq> [] \<and> is_word (last (pre @ term))) post)"

text \<open>"Hyphens replaced by spaces, non-alphanumeric/non-space characters stripped,
  lower-cased".\<close>

definition spec_clean_phrase :: "string \<Rightarrow> string" where
  "spec_clean_phrase s =
     lower (filter (\<lambda>c. is_alnum c \<or> is_space c) (replace_char CHR ''-'' '' '' s))"

section \<open>Properties of the segmenter\<close>

lemma split_on_not_Nil: "split_on sep s \<noteq> []"
  by (induction s) (auto split: list.splits)

lemma referral_elements_not_Nil: "referral_elements s \<noteq> []"
  by (simp add: referral_elements_def split_on_not_Nil)

lemma first_index_None_iff: "first_index vocab xs = None \<longleftrightarrow> (\<forall>t\<in>set xs. t \<notin> set vocab)"
  by (induction xs) auto

lemma first_index_split:
  "\<forall>t\<in>set pre. t \<notin> set vocab \<Longrightarrow> kw \<in> set vocab \<Longrightarrow>
   first_index vocab (pre @ kw # post) = Some (length pre)"
  by (induction pre) auto

text \<open>
  Claim C5. \<open>format_referral\<close> on \<open>"CT scan abdomen with iv contrast"\<close> gives the exam
  \<open>"CT scan"\<close>, the body part \<open>"abdomen"\<close> and the contrast \<open>"with iv contrast"\<close>;
  \<open>"scan"\<close> is one of the CT types and \<open>"with"\<close> one of the contrast keywords.
\<close>

theorem segment_example:
  "''scan'' \<in> set ct_types \<and> ''with'' \<in> set contrast_keywords \<and>
   format_referral (Str ''CT scan abdomen with iv contrast'') =
     (Some ''CT scan'', Some ''abdomen'', Some ''with iv contrast'')"
  by (simp add: format_referral_def referral_elements_def body_and_contrast_def strip_def
      is_space_def replace_char_def ct_types_def contrast_keywords_def)

text \<open>
  Claim C9. On the empty string \<open>format_referral\<close> gives the exam \<open>""\<close>, the body part
  \<open>""\<close> and no contrast. The result of three \<open>None\<close> comes from the rows that are not
  strings and from no string at all: the split of a string always has a first token, so
  the \<open>IndexError\<close> that the \<open>except\<close> clause would catch is never raised.
\<close>

theorem segment_empty_string:
  "format_referral (Str '''') = (Some '''', Some '''', None) \<and>
   (\<forall>row. (format_referral row = (None, None, None)) = (row \<notin> range Str))"
proof (intro conjI allI)
  show "format_referral (Str '''') = (Some '''', Some '''', None)"
    by (simp add: format_referral_def referral_elements_def body_and_contrast_def strip_def
      replace_char_def ct_types_def contrast_keywords_def)
next
  fix row
  show "(format_referral row = (None, None, None)) = (row \<notin> range Str)"
  proof (cases row)
    case (Str s)
    obtain e0 rest where "referral_elements s = e0 # rest"
      using referral_elements_not_Nil [of s] by (cases "referral_elements s") auto
    then have "fst (format_referral (Str s)) \<noteq> None"
      by (auto simp: format_referral_def body_and_contrast_def Let_def split: option.splits)
    then show ?thesis using Str by auto
  qed (auto simp: format_referral_def)
qed

theorem segment_empty_string_witness:
  "format_referral (Str '''') = (Some '''', Some '''', None) \<and>
   format_referral Null = (None, None, None) \<and>
   format_referral (Num 7) = (None, None, None) \<and>
   format_referral (Str ''  '') \<noteq> (None, None, None)"
proof -
  have a: "format_referral (Str [])  = (Some [], Some [], None)"
    using segment_empty_string by blast
  have b: "(format_referral row = (None, None, None)) = (row \<notin> range Str)" for row
    using segment_empty_string by blast
  show ?thesis using a b [of Null] b [of "Num 7"] b [of "Str ''  ''"] by auto
qed

text \<open>
  Claim C6. When no token of the row is a CT type, the exam is the first token alone and
  the index is taken as 0: the tokens after the first one are those scanned for a contrast
  keyword. Without a keyword among them they all form the body part and there is no
  contrast; otherwise the tokens before the first keyword form the body part and the
  tokens from it on form the contrast.
\<close>

theorem segment_without_ct_type:
  assumes els: "referral_elements row = e0 # rest"
    and no_ct: "\<forall>t\<in>set (e0 # rest). t \<notin> set ct_types"
  shows "fst (format_referral (Str row)) = Some e0 \<and>
         ((\<forall>t\<in>set rest. t \<notin> set contrast_keywords) \<longrightarrow>
            snd (format_referral (Str row)) = (Some (join '' '' rest), None)) \<and>
         (\<forall>pre kw post.
            rest = pre @ kw # post \<and> (\<forall>t\<in>set pre. t \<notin> set contrast_keywords) \<and>
            kw \<in> set contrast_keywords \<longrightarrow>
            snd (format_referral (Str row)) =
              (Some (join '' '' pre), Some (join '' '' (kw # post))))"
proof -
  have none: "first_index ct_types (e0 # rest) = None"
    using no_ct by (simp only: first_index_None_iff)
  have fr: "format_referral (Str row) = body_and_contrast (e0 # rest) e0 0"
    using els none by (simp add: format_referral_def)
  have a: "fst (format_referral (Str row)) = Some e0"
    by (simp add: fr body_and_contrast_def split: option.splits)
  have b: "snd (format_referral (Str row)) = (Some (join '' '' rest), None)"
    if "\<forall>t\<in>set rest. t \<notin> set contrast_keywords"
  proof -
    have "first_index contrast_keywords rest = None"
      using that by (simp only: first_index_None_iff)
    then show ?thesis by (simp add: fr body_and_contrast_def)
  qed
  have c: "snd (format_referral (Str row)) = (Some (join '' '' pre), Some (join '' '' (kw # post)))"
    if "rest = pre @ kw # post" "\<forall>t\<in>set pre. t \<notin> set contrast_keywords"
       "kw \<in> set contrast_keywords" for pre kw post
  proof -
    have "first_index contrast_keywords rest = Some (length pre)"
      using that first_index_split by simp
    then show ?thesis using that(1) by (simp add: fr body_and_contrast_def)
  qed
  show ?thesis using a b c by blast
qed

theorem segment_without_ct_type_witness:
  "format_referral (Str ''MRI brain, wo contrast'') =
     (Some ''MRI'', Some ''brain'', Some ''wo contrast'')"
proof -
  have els: "referral_elements ''MRI brain, wo contrast'' = ''MRI'' # [''brain'', ''wo'', ''contrast'']"
    by (simp add: referral_elements_def strip_def is_space_def replace_char_def)
  have no_ct: "\<forall>t\<in>set (''MRI'' # [''brain'', ''wo'', ''contrast'']). t \<notin> set ct_types"
    by (simp add: ct_types_def)
  note th = segment_without_ct_type [OF els no_ct]
  have split: "[''brain'', ''wo'', ''contrast''] = [''brain''] @ ''wo'' # [''contrast''] \<and>
               (\<forall>t\<in>set [''brain'']. t \<notin> set contrast_keywords) \<and> ''wo'' \<in> set contrast_keywords"
    by (simp add: contrast_keywords_def)
  from th have "fst (format_referral (Str ''MRI brain, wo contrast'')) = Some ''MRI''"
    by blast
  moreover from th split have "snd (format_referral (Str ''MRI brain, wo contrast'')) =
     (Some (join '' '' [''brain'']), Some (join '' '' (''wo'' # [''contrast''])))"
    by blast
  ultimately show ?thesis by (simp add: prod_eq_iff)
qed

text \<open>The no-break space U+00A0 is whitespace for \<open>strip\<close>: the token "scan" followed by
  it is the CT type "scan".\<close>

lemma segment_no_break_space:
  "format_referral (Str (''scan'' @ [CHR 0xA0] @ '' abdomen'')) =
     (Some ''scan'', Some ''abdomen'', None)"
  by (simp add: format_referral_def referral_elements_def body_and_contrast_def strip_def
      is_space_def replace_char_def ct_types_def contrast_keywords_def)

section \<open>Properties of the contrast codes\<close>

text \<open>The code gives "with iv contrast" the code 1 and "without iv contrast" the code 0,
  the other way round from the specification's table.\<close>

theorem encode_contrast_spec_codes_counterexample:
  "encode_contrast (Str ''with iv contrast'') \<noteq> spec_encode_contrast (Str ''with iv contrast'') \<and>
   encode_contrast (Str ''with iv contrast'') = Num 1 \<and>
   encode_contrast (Str ''without iv contrast'') = Num 0"
  by (simp add: encode_contrast_def spec_encode_contrast_def map_value_def contrast_flag_map_def)

text \<open>
  Claim C1, as amended. \<open>encode_contrast\<close> maps exactly three phrases to codes, "with iv
  contrast" to 1, "without iv contrast" to 0 and "with or without iv contrast" to 2, and
  every other cell, the missing value included, to the missing value.
\<close>

theorem encode_contrast_codes:
  "encode_contrast v =
     (if v = Str ''with iv contrast'' then Num 1
      else if v = Str ''without iv contrast'' then Num 0
      else if v = Str ''with or without iv contrast'' then Num 2
      else Null)"
  by (cases v) (simp_all add: encode_contrast_def map_value_def contrast_flag_map_def)

section \<open>Properties of the recommendation extractor\<close>

lemma rstrip_chars_decomp:
  "\<exists>k. s = rstrip_chars [c] s @ replicate k c \<and>
       \<not> (rstrip_chars [c] s \<noteq> [] \<and> last (rstrip_chars [c] s) = c)"
proof -
  let ?P = "\<lambda>x. x \<in> set [c]"
  have tw: "takeWhile ?P xs = replicate (length (takeWhile ?P xs)) c" for xs
    by (induction xs) auto
  have "rev s = takeWhile ?P (rev s) @ dropWhile ?P (rev s)" by simp
  then have "s = rev (dropWhile ?P (rev s)) @ rev (takeWhile ?P (rev s))"
    by (metis rev_append rev_rev_ident)
  also have "rev (takeWhile ?P (rev s)) = replicate (length (takeWhile ?P (rev s))) c"
    using tw [of "rev s"] by (metis rev_replicate)
  finally have a: "s = rstrip_chars [c] s @ replicate (length (takeWhile ?P (rev s))) c"
    by (simp add: rstrip_chars_def)
  have b: "\<not> (rstrip_chars [c] s \<noteq> [] \<and> last (rstrip_chars [c] s) = c)"
  proof
    assume h: "rstrip_chars [c] s \<noteq> [] \<and> last (rstrip_chars [c] s) = c"
    then have ne: "dropWhile ?P (rev s) \<noteq> []" by (simp add: rstrip_chars_def)
    then have "\<not> ?P (hd (dropWhile ?P (rev s)))" by (rule hd_dropWhile)
    moreover have "last (rstrip_chars [c] s) = hd (dropWhile ?P (rev s))"
      using ne by (simp add: rstrip_chars_def last_rev)
    ultimately show False using h by simp
  qed
  show ?thesis using a b by blast
qed

text \<open>
  Claim C7, as amended. When the pattern finds no label in the text, the result is the
  text with every line feed replaced by a space, then stripped of leading and trailing
  whitespace, then with all its trailing periods removed: the stripped text is the result
  followed by periods only, and the result does not end with a period.
\<close>

theorem extract_without_label:
  assumes "re_search_label t = None"
  shows "clean_recommendation (Str t) =
           Inr (rstrip_chars ''.'' (strip (replace_char (CHR 0x0A) '' '' t))) \<and>
         (\<exists>k. strip (replace_char (CHR 0x0A) '' '' t) =
                rstrip_chars ''.'' (strip (replace_char (CHR 0x0A) '' '' t)) @ replicate k CHR ''.'') \<and>
         \<not> (rstrip_chars ''.'' (strip (replace_char (CHR 0x0A) '' '' t)) \<noteq> [] \<and>
            last (rstrip_chars ''.'' (strip (replace_char (CHR 0x0A) '' '' t))) = CHR ''.'')"
proof -
  let ?s = "strip (replace_char (CHR 0x0A) '' '' t)"
  have "clean_recommendation (Str t) = Inr (rstrip_chars ''.'' ?s)"
    using assms by (simp add: clean_recommendation_def)
  then show ?thesis using rstrip_chars_decomp [of ?s "CHR ''.''"] by blast
qed

lemma re_search_label_foo: "re_search_label ''foo..'' = None"
  by (simp add: match_here_def after_label_def label_rest_def lower_def lower_char_def
      ascii_lowercase_def ascii_uppercase_def latin1_lowercase_def latin1_uppercase_def)

lemma re_search_label_foo_bar:
  "re_search_label (''  foo'' @ [CHR 0x0A] @ ''bar.. '') = None"
  by (simp add: match_here_def after_label_def label_rest_def lower_def lower_char_def
      ascii_lowercase_def ascii_uppercase_def latin1_lowercase_def latin1_uppercase_def)

theorem extract_without_label_witness:
  "clean_recommendation (Str (''  foo'' @ [CHR 0x0A] @ ''bar.. '')) = Inr ''foo bar''"
proof -
  have "rstrip_chars ''.'' (strip (replace_char (CHR 0x0A) '' '' (''  foo'' @ [CHR 0x0A] @ ''bar.. '')))
          = ''foo bar''"
    by (simp add: strip_def replace_char_def is_space_def rstrip_chars_def)
  then show ?thesis
    using extract_without_label [OF re_search_label_foo_bar] by simp
qed

text \<open>On \<open>"foo.."\<close> the code removes both periods, where removing a single trailing
  period would leave \<open>"foo."\<close>.\<close>

theorem extract_single_period_counterexample:
  "re_search_label ''foo..'' = None \<and>
   clean_recommendation (Str ''foo..'') = Inr ''foo'' \<and>
   spec_remove_single_trailing_period (strip (replace_char (CHR 0x0A) '' '' ''foo..'')) = ''foo.''"
proof -
  have a: "clean_recommendation (Str ''foo..'') = Inr ''foo''"
    unfolding clean_recommendation_def cell.case re_search_label_foo option.case
    by (simp add: strip_def replace_char_def is_space_def rstrip_chars_def)
  have b: "spec_remove_single_trailing_period (strip (replace_char (CHR 0x0A) '' '' ''foo..'')) = ''foo.''"
    by (simp add: spec_remove_single_trailing_period_def strip_def replace_char_def is_space_def)
  show ?thesis by (rule conjI [OF re_search_label_foo conjI [OF a b]])
qed

text \<open>A trailing no-break space is stripped before the periods are removed.\<close>

lemma extract_no_break_space:
  "clean_recommendation (Str (''foo.'' @ [CHR 0xA0])) = Inr ''foo''"
  by (simp add: clean_recommendation_def match_here_def after_label_def label_rest_def
      lower_def lower_char_def ascii_lowercase_def ascii_uppercase_def latin1_lowercase_def
      latin1_uppercase_def strip_def replace_char_def is_space_def rstrip_chars_def)

lemma re_search_label_skip:
  "\<forall>i<length pre. match_here (drop i (pre @ s)) = None \<Longrightarrow>
   re_search_label (pre @ s) = re_search_label s"
proof (induction pre)
  case Nil
  then show ?case by simp
next
  case (Cons c pre)
  have "match_here (drop 0 ((c # pre) @ s)) = None" using Cons.prems by blast
  then have h: "match_here (c # pre @ s) = None" by simp
  have "\<forall>i<length pre. match_here (drop i (pre @ s)) = None"
  proof (intro allI impI)
    fix i assume "i < length pre"
    then have "match_here (drop (Suc i) ((c # pre) @ s)) = None" using Cons.prems by auto
    then show "match_here (drop i (pre @ s)) = None" by simp
  qed
  then show ?case using Cons.IH h by simp
qed

lemma match_here_exam_foo_bar: "match_here (''Exam: foo bar.'' @ post) = Some ''foo bar''"
  by (simp add: match_here_def after_label_def label_rest_def lower_def lower_char_def
      ascii_lowercase_def ascii_uppercase_def
      latin1_lowercase_def latin1_uppercase_def is_space_def capture_def)

lemma re_search_label_exam_foo_bar:
  "re_search_label (''Exam: foo bar.'' @ post) = Some ''foo bar''"
  using match_here_exam_foo_bar [of post] by simp

text \<open>
  Claim C8, as amended. For a text that contains \<open>"Exam: foo bar."\<close>, with no match of the
  pattern starting before that occurrence, the result is \<open>"foo bar"\<close>.
\<close>

theorem extract_exam_foo_bar:
  assumes "\<forall>i<length pre. match_here (drop i (pre @ ''Exam: foo bar.'' @ post)) = None"
  shows "clean_recommendation (Str (pre @ ''Exam: foo bar.'' @ post)) = Inr ''foo bar''"
proof -
  have "re_search_label (pre @ ''Exam: foo bar.'' @ post) = Some ''foo bar''"
    using re_search_label_skip [OF assms] re_search_label_exam_foo_bar [of post] by simp
  then show ?thesis by (simp add: clean_recommendation_def strip_def is_space_def)
qed

theorem extract_exam_foo_bar_witness:
  "clean_recommendation (Str (''Re: '' @ ''Exam: foo bar.'' @ '' Exam: z.'')) = Inr ''foo bar''"
proof -
  have "match_here (drop i (''Re: '' @ ''Exam: foo bar.'' @ '' Exam: z.'')) = None"
    if "i < length ''Re: ''" for i
  proof -
    from that have "i = 0 \<or> i = 1 \<or> i = 2 \<or> i = 3" by auto
    then show ?thesis
      by (auto simp: match_here_def after_label_def label_rest_def lower_def lower_char_def
          ascii_lowercase_def ascii_uppercase_def latin1_lowercase_def latin1_uppercase_def)
  qed
  then have "\<forall>i<length ''Re: ''. match_here (drop i (''Re: '' @ ''Exam: foo bar.'' @ '' Exam: z.'')) = None"
    by blast
  then show ?thesis by (rule extract_exam_foo_bar)
qed

text \<open>A label earlier in the text wins: the search stops at the leftmost match.\<close>

theorem extract_exam_foo_bar_counterexample:
  "clean_recommendation (Str ''Recommendation: x. Exam: foo bar.'') = Inr ''x'' \<and>
   clean_recommendation (Str ''Recommendation: x. Exam: foo bar.'') \<noteq> Inr ''foo bar''"
  by (simp add: clean_recommendation_def match_here_def after_label_def label_rest_def lower_def
      lower_char_def ascii_lowercase_def ascii_uppercase_def
      latin1_lowercase_def latin1_uppercase_def is_space_def capture_def strip_def)

section \<open>Properties of the taxonomy encoders\<close>

lemma term_here_iff:
  "term_here prev term s \<longleftrightarrow>
     word_boundary prev s \<and>
     (\<exists>post. s = term @ post \<and>
        word_boundary (if term = [] then prev else is_word (last term)) post)"
proof -
  have "take (length term) s = term \<longleftrightarrow> (\<exists>post. s = term @ post)"
    by (metis append_eq_conv_conj append_take_drop_id)
  moreover have "drop (length term) s = post" if "s = term @ post" for post
    using that by simp
  ultimately show ?thesis
    unfolding term_here_def by auto
qed

lemma occurs_from_Cons:
  "(\<exists>pre post. c # cs = pre @ term @ post \<and>
        word_boundary (if pre = [] then prev else is_word (last pre)) (term @ post) \<and>
        word_boundary (if pre @ term = [] then prev else is_word (last (pre @ term))) post)
   \<longleftrightarrow>
   term_here prev term (c # cs) \<or>
   (\<exists>pre post. cs = pre @ term @ post \<and>
        word_boundary (if pre = [] then is_word c else is_word (last pre)) (term @ post) \<and>
        word_boundary (if pre @ term = [] then is_word c else is_word (last (pre @ term))) post)"
  (is "?L \<longleftrightarrow> ?H \<or> ?T")
proof
  assume ?L
  then obtain pre post where
    eq: "c # cs = pre @ term @ post"
    and b1: "word_boundary (if pre = [] then prev else is_word (last pre)) (term @ post)"
    and b2: "word_boundary (if pre @ term = [] then prev else is_word (last (pre @ term))) post"
    by blast
  show "?H \<or> ?T"
  proof (cases pre)
    case Nil
    from eq b1 b2 Nil have ?H
      unfolding term_here_iff by auto
    then show ?thesis ..
  next
    case (Cons d pre')
    with eq have d: "d = c" and cs: "cs = pre' @ term @ post" by simp_all
    have l1: "is_word (last pre) = (if pre' = [] then is_word c else is_word (last pre'))"
      using Cons d by simp
    have l2: "is_word (last (pre @ term)) =
              (if pre' @ term = [] then is_word c else is_word (last (pre' @ term)))"
      using Cons d by simp
    from b1 Cons l1 have c1:
      "word_boundary (if pre' = [] then is_word c else is_word (last pre')) (term @ post)"
      by simp
    from b2 Cons l2 have c2:
      "word_boundary (if pre' @ term = [] then is_word c else is_word (last (pre' @ term))) post"
      by simp
    from cs c1 c2 have ?T by blast
    then show ?thesis ..
  qed
next
  assume "?H \<or> ?T"
  then show ?L
  proof
    assume ?H
    then obtain post where
      e: "c # cs = term @ post"
      and h1: "word_boundary prev (c # cs)"
      and h2: "word_boundary (if term = [] then prev else is_word (last term)) post"
      unfolding term_here_iff by blast
    have "c # cs = [] @ term @ post" using e by simp
    moreover have "word_boundary (if [] = ([]::string) then prev else is_word (last []))
                     (term @ post)"
      using h1 e by simp
    moreover have "word_boundary (if [] @ term = [] then prev else is_word (last ([] @ term))) post"
      using h2 by (cases "term = []") simp_all
    ultimately show ?L by blast
  next
    assume ?T
    then obtain pre' post where
      cs: "cs = pre' @ term @ post"
      and c1: "word_boundary (if pre' = [] then is_word c else is_word (last pre')) (term @ post)"
      and c2: "word_boundary (if pre' @ term = [] then is_word c else is_word (last (pre' @ term))) post"
      by blast
    have l1: "(if c # pre' = [] then prev else is_word (last (c # pre'))) =
              (if pre' = [] then is_word c else is_word (last pre'))"
      by simp
    have l2: "(if (c # pre') @ term = [] then prev else is_word (last ((c # pre') @ term))) =
              (if pre' @ term = [] then is_word c else is_word (last (pre' @ term)))"
      by simp
    have "c # cs = (c # pre') @ term @ post" using cs by simp
    moreover have "word_boundary (if c # pre' = [] then prev else is_word (last (c # pre'))) (term @ post)"
      using c1 unfolding l1 .
    moreover have "word_boundary (if (c # pre') @ term = [] then prev
                                  else is_word (last ((c # pre') @ term))) post"
      using c2 unfolding l2 .
    ultimately show ?L by blast
  qed
qed

lemma scan_term_iff:
  "scan_term prev term s \<longleftrightarrow>
     (\<exists>pre post. s = pre @ term @ post \<and>
        word_boundary (if pre = [] then prev else is_word (last pre)) (term @ post) \<and>
        word_boundary (if pre @ term = [] then prev else is_word (last (pre @ term))) post)"
proof (induction s arbitrary: prev)
  case Nil
  show ?case by (auto simp: term_here_iff)
next
  case (Cons c cs)
  show ?case
    unfolding occurs_from_Cons using Cons.IH [of "is_word c"] by simp
qed

lemma re_search_word_iff: "re_search_word term text \<longleftrightarrow> occurs_as_whole_word term text"
proof -
  have "(if pre = [] then False else is_word (last pre)) = (pre \<noteq> [] \<and> is_word (last pre))"
    for pre :: string by simp
  then show ?thesis
    unfolding re_search_word_def occurs_as_whole_word_def scan_term_iff by presburger
qed

lemma bit_push_bit_one_iff: "bit (push_bit j (1::int)) k \<longleftrightarrow> j = k"
  by (auto simp: push_bit_eq_mult bit_exp_iff)

lemma organ_loop_bits:
  assumes "\<forall>p\<in>set clusters. map_of cluster_tokens (fst p) \<noteq> None"
  shows "\<exists>n. organ_loop clusters cleaned acc = Inr n \<and>
           (\<forall>k. bit n k \<longleftrightarrow>
              bit acc k \<or>
              (\<exists>p\<in>set clusters. list_ex (\<lambda>t. re_search_word t cleaned) (snd p) \<and>
                 (\<exists>tok. map_of cluster_tokens (fst p) = Some tok \<and> bit tok k)))"
  using assms
proof (induction clusters arbitrary: acc)
  case Nil
  show ?case by simp
next
  case (Cons p clusters)
  obtain cluster terms where p: "p = (cluster, terms)" by (cases p)
  from Cons.prems p obtain tok where tok: "map_of cluster_tokens cluster = Some tok" by auto
  from Cons.prems have rest: "\<forall>q\<in>set clusters. map_of cluster_tokens (fst q) \<noteq> None" by simp
  show ?case
  proof (cases "list_ex (\<lambda>t. re_search_word t cleaned) terms")
    case True
    from Cons.IH [OF rest, of "acc OR tok"] obtain n where
      n: "organ_loop clusters cleaned (acc OR tok) = Inr n"
      and b: "\<And>k. bit n k \<longleftrightarrow> bit (acc OR tok) k \<or>
              (\<exists>q\<in>set clusters. list_ex (\<lambda>t. re_search_word t cleaned) (snd q) \<and>
                 (\<exists>tok. map_of cluster_tokens (fst q) = Some tok \<and> bit tok k))"
      by blast
    have "organ_loop (p # clusters) cleaned acc = Inr n"
      using True tok n p by simp
    moreover have "bit n k \<longleftrightarrow> bit acc k \<or>
              (\<exists>q\<in>set (p # clusters). list_ex (\<lambda>t. re_search_word t cleaned) (snd q) \<and>
                 (\<exists>tok. map_of cluster_tokens (fst q) = Some tok \<and> bit tok k))" for k
      unfolding b [of k] using True tok p by (auto simp: bit_or_iff)
    ultimately show ?thesis by blast
  next
    case False
    from Cons.IH [OF rest, of acc] obtain n where
      n: "organ_loop clusters cleaned acc = Inr n"
      and b: "\<And>k. bit n k \<longleftrightarrow> bit acc k \<or>
              (\<exists>q\<in>set clusters. list_ex (\<lambda>t. re_search_word t cleaned) (snd q) \<and>
                 (\<exists>tok. map_of cluster_tokens (fst q) = Some tok \<and> bit tok k))"
      by blast
    have "organ_loop (p # clusters) cleaned acc = Inr n"
      using False n p by simp
    moreover have "bit n k \<longleftrightarrow> bit acc k \<or>
              (\<exists>q\<in>set (p # clusters). list_ex (\<lambda>t. re_search_word t cleaned) (snd q) \<and>
                 (\<exists>tok. map_of cluster_tokens (fst q) = Some tok \<and> bit tok k))" for k
      unfolding b [of k] using False p by auto
    ultimately show ?thesis by blast
  qed
qed

lemma exam_loop_bits:
  assumes "\<forall>p\<in>set flags. map_of exam_categories (fst p) \<noteq> None"
  shows "\<exists>n. exam_loop flags cleaned acc = Inr n \<and>
           (\<forall>k. bit n k \<longleftrightarrow>
              bit acc k \<or>
              (\<exists>p\<in>set flags. bit (snd p) k \<and>
                 (\<exists>terms. map_of exam_categories (fst p) = Some terms \<and>
                    list_ex (\<lambda>t. re_search_word t cleaned) terms)))"
  using assms
proof (induction flags arbitrary: acc)
  case Nil
  show ?case by simp
next
  case (Cons p flags)
  obtain category flag where p: "p = (category, flag)" by (cases p)
  from Cons.prems p obtain terms where terms: "map_of exam_categories category = Some terms"
    by auto
  from Cons.prems have rest: "\<forall>q\<in>set flags. map_of exam_categories (fst q) \<noteq> None" by simp
  show ?case
  proof (cases "list_ex (\<lambda>t. re_search_word t cleaned) terms")
    case True
    from Cons.IH [OF rest, of "acc OR flag"] obtain n where
      n: "exam_loop flags cleaned (acc OR flag) = Inr n"
      and b: "\<And>k. bit n k \<longleftrightarrow> bit (acc OR flag) k \<or>
              (\<exists>q\<in>set flags. bit (snd q) k \<and>
                 (\<exists>terms. map_of exam_categories (fst q) = Some terms \<and>
                    list_ex (\<lambda>t. re_search_word t cleaned) terms))"
      by blast
    have "exam_loop (p # flags) cleaned acc = Inr n"
      using True terms n p by simp
    moreover have "bit n k \<longleftrightarrow> bit acc k \<or>
              (\<exists>q\<in>set (p # flags). bit (snd q) k \<and>
                 (\<exists>terms. map_of exam_categories (fst q) = Some terms \<and>
                    list_ex (\<lambda>t. re_search_word t cleaned) terms))" for k
      unfolding b [of k] using True terms p by (auto simp: bit_or_iff)
    ultimately show ?thesis by blast
  next
    case False
    from Cons.IH [OF rest, of acc] obtain n where
      n: "exam_loop flags cleaned acc = Inr n"
      and b: "\<And>k. bit n k \<longleftrightarrow> bit acc k \<or>
              (\<exists>q\<in>set flags. bit (snd q) k \<and>
                 (\<exists>terms. map_of exam_categories (fst q) = Some terms \<and>
                    list_ex (\<lambda>t. re_search_word t cleaned) terms))"
      by blast
    have "exam_loop (p # flags) cleaned acc = Inr n"
      using False terms n p by simp
    moreover have "bit n k \<longleftrightarrow> bit acc k \<or>
              (\<exists>q\<in>set (p # flags). bit (snd q) k \<and>
                 (\<exists>terms. map_of exam_categories (fst q) = Some terms \<and>
                    list_ex (\<lambda>t. re_search_word t cleaned) terms))" for k
      unfolding b [of k] using False terms p by auto
    ultimately show ?thesis by blast
  qed
qed

lemma cluster_tokens_zip:
  "cluster_tokens = zip (map fst organ_clusters)
                        (map (\<lambda>i. push_bit i 1) [0..<length organ_clusters])"
  by (simp add: cluster_tokens_def organ_clusters_def upt_conv_Cons)

lemma distinct_organ_names: "distinct (map fst organ_clusters)"
  by (simp add: organ_clusters_def)

lemma categories_to_flags_zip:
  "categories_to_flags = zip (map fst exam_categories)
                             (map (\<lambda>i. push_bit i 1) [0..<length exam_categories])"
  by (simp add: categories_to_flags_def exam_categories_def upt_conv_Cons)

lemma distinct_exam_names: "distinct (map fst exam_categories)"
  by (simp add: exam_categories_def)

lemma cluster_token_nth:
  assumes "i < length organ_clusters"
  shows "map_of cluster_tokens (fst (organ_clusters ! i)) = Some (push_bit i 1)"
proof -
  let ?ks = "map fst organ_clusters"
  let ?vs = "map (\<lambda>i. push_bit i (1::int)) [0..<length organ_clusters]"
  have "map_of (zip ?ks ?vs) (?ks ! i) = Some (?vs ! i)"
    by (rule map_of_zip_nth) (use assms distinct_organ_names in simp_all)
  moreover have "?ks ! i = fst (organ_clusters ! i)" using assms by simp
  moreover have "?vs ! i = push_bit i 1" using assms by simp
  moreover have "map_of cluster_tokens = map_of (zip ?ks ?vs)"
    by (subst cluster_tokens_zip) (rule refl)
  ultimately show ?thesis by (simp only:)
qed

lemma category_flag_nth:
  assumes "i < length exam_categories"
  shows "categories_to_flags ! i = (fst (exam_categories ! i), push_bit i 1)"
  using assms by (simp add: categories_to_flags_zip)

lemma category_terms_nth:
  assumes "i < length exam_categories"
  shows "map_of exam_categories (fst (exam_categories ! i)) = Some (snd (exam_categories ! i))"
  using assms distinct_exam_names by simp

lemma length_categories_to_flags: "length categories_to_flags = length exam_categories"
  by (simp add: categories_to_flags_zip)

lemma organ_flag_bits:
  assumes "phrase \<noteq> Null"
  shows "\<exists>m. tokenize_and_flag_organs phrase = Inr (Num m) \<and>
           (\<forall>i. bit m i \<longleftrightarrow>
              i < length organ_clusters \<and>
              (\<exists>term\<in>set (snd (organ_clusters ! i)).
                 re_search_word term (clean_phrase (py_str phrase))))"
proof -
  let ?c = "clean_phrase (py_str phrase)"
  have keys: "\<forall>p\<in>set organ_clusters. map_of cluster_tokens (fst p) \<noteq> None"
  proof
    fix p assume "p \<in> set organ_clusters"
    then obtain j where "j < length organ_clusters" "p = organ_clusters ! j"
      by (auto simp: in_set_conv_nth)
    then show "map_of cluster_tokens (fst p) \<noteq> None"
      using cluster_token_nth [of j] by simp
  qed
  from organ_loop_bits [OF keys, of ?c 0] obtain m where
    m: "organ_loop organ_clusters ?c 0 = Inr m"
    and b: "\<And>k. bit m k \<longleftrightarrow>
              (\<exists>p\<in>set organ_clusters. list_ex (\<lambda>t. re_search_word t ?c) (snd p) \<and>
                 (\<exists>tok. map_of cluster_tokens (fst p) = Some tok \<and> bit tok k))"
    by auto
  have "bit m i \<longleftrightarrow> i < length organ_clusters \<and>
          (\<exists>term\<in>set (snd (organ_clusters ! i)). re_search_word term ?c)" for i
  proof
    assume "bit m i"
    then obtain p tok where p: "p \<in> set organ_clusters"
      and ex: "list_ex (\<lambda>t. re_search_word t ?c) (snd p)"
      and tok: "map_of cluster_tokens (fst p) = Some tok" "bit tok i"
      unfolding b by blast
    from p obtain j where j: "j < length organ_clusters" "p = organ_clusters ! j"
      by (auto simp: in_set_conv_nth)
    from tok j have "bit (push_bit j (1::int)) i" by (simp add: cluster_token_nth)
    then have "j = i" by (simp only: bit_push_bit_one_iff)
    with j ex show "i < length organ_clusters \<and>
          (\<exists>term\<in>set (snd (organ_clusters ! i)). re_search_word term ?c)"
      by (simp add: list_ex_iff)
  next
    assume h: "i < length organ_clusters \<and>
          (\<exists>term\<in>set (snd (organ_clusters ! i)). re_search_word term ?c)"
    then have "organ_clusters ! i \<in> set organ_clusters" by simp
    moreover from h have "list_ex (\<lambda>t. re_search_word t ?c) (snd (organ_clusters ! i))"
      by (simp add: list_ex_iff)
    moreover from h have "map_of cluster_tokens (fst (organ_clusters ! i)) = Some (push_bit i 1)"
      by (simp add: cluster_token_nth)
    moreover have "bit (push_bit i (1::int)) i" by (simp only: bit_push_bit_one_iff)
    ultimately show "bit m i" unfolding b by blast
  qed
  moreover have "tokenize_and_flag_organs phrase = Inr (Num m)"
    using assms m by (simp add: tokenize_and_flag_organs_def)
  ultimately show ?thesis by blast
qed

lemma exam_flag_bits:
  assumes "exam_name \<noteq> Null"
  shows "\<exists>n. map_exam_to_binary_flag exam_name = Inr (Num n) \<and>
           (\<forall>i. bit n i \<longleftrightarrow>
              i < length exam_categories \<and>
              (\<exists>term\<in>set (snd (exam_categories ! i)).
                 re_search_word term (clean_phrase (py_str exam_name))))"
proof -
  let ?c = "clean_phrase (py_str exam_name)"
  have nth: "\<exists>j<length exam_categories. p = (fst (exam_categories ! j), push_bit j 1)"
    if "p \<in> set categories_to_flags" for p
    using that by (auto simp: in_set_conv_nth length_categories_to_flags category_flag_nth)
  have keys: "\<forall>p\<in>set categories_to_flags. map_of exam_categories (fst p) \<noteq> None"
  proof
    fix p assume "p \<in> set categories_to_flags"
    from nth [OF this] obtain j where "j < length exam_categories"
      "p = (fst (exam_categories ! j), push_bit j 1)" by blast
    then show "map_of exam_categories (fst p) \<noteq> None"
      using category_terms_nth [of j] by simp
  qed
  from exam_loop_bits [OF keys, of ?c 0] obtain n where
    n: "exam_loop categories_to_flags ?c 0 = Inr n"
    and b: "\<And>k. bit n k \<longleftrightarrow>
              (\<exists>p\<in>set categories_to_flags. bit (snd p) k \<and>
                 (\<exists>terms. map_of exam_categories (fst p) = Some terms \<and>
                    list_ex (\<lambda>t. re_search_word t ?c) terms))"
    by auto
  have "bit n i \<longleftrightarrow> i < length exam_categories \<and>
          (\<exists>term\<in>set (snd (exam_categories ! i)). re_search_word term ?c)" for i
  proof
    assume "bit n i"
    then obtain p terms where p: "p \<in> set categories_to_flags" and bi: "bit (snd p) i"
      and terms: "map_of exam_categories (fst p) = Some terms"
      and ex: "list_ex (\<lambda>t. re_search_word t ?c) terms"
      unfolding b by blast
    from nth [OF p] obtain j where j: "j < length exam_categories"
      "p = (fst (exam_categories ! j), push_bit j 1)" by blast
    from bi j have "bit (push_bit j (1::int)) i" by (simp only: snd_conv)
    then have "j = i" by (simp only: bit_push_bit_one_iff)
    moreover from terms j have "terms = snd (exam_categories ! j)"
      by (simp add: category_terms_nth)
    ultimately show "i < length exam_categories \<and>
          (\<exists>term\<in>set (snd (exam_categories ! i)). re_search_word term ?c)"
      using j ex by (simp add: list_ex_iff)
  next
    assume h: "i < length exam_categories \<and>
          (\<exists>term\<in>set (snd (exam_categories ! i)). re_search_word term ?c)"
    then have "categories_to_flags ! i \<in> set categories_to_flags"
      by (simp add: length_categories_to_flags)
    then have "(fst (exam_categories ! i), push_bit i (1::int)) \<in> set categories_to_flags"
      using h by (simp add: category_flag_nth)
    moreover have "bit (snd (fst (exam_categories ! i), push_bit i (1::int))) i"
      by (simp only: snd_conv bit_push_bit_one_iff)
    moreover from h have "map_of exam_categories (fst (fst (exam_categories ! i), push_bit i (1::int)))
        = Some (snd (exam_categories ! i))"
      by (simp add: category_terms_nth)
    moreover from h have "list_ex (\<lambda>t. re_search_word t ?c) (snd (exam_categories ! i))"
      by (simp add: list_ex_iff)
    ultimately show "bit n i" unfolding b by blast
  qed
  moreover have "map_exam_to_binary_flag exam_name = Inr (Num n)"
    using assms n by (simp add: map_exam_to_binary_flag_def)
  ultimately show ?thesis by blast
qed

lemma organ_kidney_stone: "tokenize_and_flag_organs (Str ''kidney stone'') = Inr (Num 8)"
  by code_simp

lemma organ_kidneystone: "tokenize_and_flag_organs (Str ''kidneystone'') = Inr (Num 0)"
  by code_simp

lemma organ_kidney_underscore: "tokenize_and_flag_organs (Str ''kidney_'') = Inr (Num 0)"
  by code_simp

lemma exam_x_ray: "map_exam_to_binary_flag (Str ''x-ray'') = Inr (Num 0)"
  by code_simp

lemma length_organ_clusters: "length organ_clusters = 10"
  by (simp add: organ_clusters_def)

lemma length_exam_categories: "length exam_categories = 8"
  by (simp add: exam_categories_def)

lemma abdomen_pelvis_cluster:
  "fst (organ_clusters ! 3) = ''abdomen_pelvis'' \<and> ''kidney'' \<in> set (snd (organ_clusters ! 3))"
  by (simp add: organ_clusters_def)

lemma radiography_category:
  "fst (exam_categories ! 3) = ''Radiography and X-Ray'' \<and>
   ''x-ray'' \<in> set (snd (exam_categories ! 3))"
  by (simp add: exam_categories_def)

text \<open>
  What the two encoders compute. For every input that is not missing and every category
  \<open>i\<close> of the vocabulary table, bit \<open>i\<close> of the bitmask is set if and only if some trigger
  term of category \<open>i\<close> occurs as a whole word in \<open>clean_phrase\<close> of the input.
  "kidney stone" sets the bit of \<open>abdomen_pelvis\<close> (bit 3) and no other; "kidneystone"
  sets no bit.
\<close>

lemma encoder_bits:
  assumes "phrase \<noteq> Null"
  shows "(\<exists>m n. tokenize_and_flag_organs phrase = Inr (Num m) \<and>
            map_exam_to_binary_flag phrase = Inr (Num n) \<and>
            (\<forall>i<length organ_clusters.
               bit m i = (\<exists>term\<in>set (snd (organ_clusters ! i)).
                            occurs_as_whole_word term (clean_phrase (py_str phrase)))) \<and>
            (\<forall>i<length exam_categories.
               bit n i = (\<exists>term\<in>set (snd (exam_categories ! i)).
                            occurs_as_whole_word term (clean_phrase (py_str phrase))))) \<and>
         fst (organ_clusters ! 3) = ''abdomen_pelvis'' \<and>
         tokenize_and_flag_organs (Str ''kidney stone'') = Inr (Num (push_bit 3 1)) \<and>
         tokenize_and_flag_organs (Str ''kidneystone'') = Inr (Num 0)"
proof -
  from organ_flag_bits [OF assms] obtain m where
    m: "tokenize_and_flag_organs phrase = Inr (Num m)"
    and bm: "\<And>i. bit m i \<longleftrightarrow> i < length organ_clusters \<and>
              (\<exists>term\<in>set (snd (organ_clusters ! i)).
                 re_search_word term (clean_phrase (py_str phrase)))"
    by blast
  from exam_flag_bits [OF assms] obtain n where
    n: "map_exam_to_binary_flag phrase = Inr (Num n)"
    and bn: "\<And>i. bit n i \<longleftrightarrow> i < length exam_categories \<and>
              (\<exists>term\<in>set (snd (exam_categories ! i)).
                 re_search_word term (clean_phrase (py_str phrase)))"
    by blast
  have a: "\<forall>i<length organ_clusters.
               bit m i = (\<exists>term\<in>set (snd (organ_clusters ! i)).
                            occurs_as_whole_word term (clean_phrase (py_str phrase)))"
    by (simp add: bm re_search_word_iff)
  have b: "\<forall>i<length exam_categories.
               bit n i = (\<exists>term\<in>set (snd (exam_categories ! i)).
                            occurs_as_whole_word term (clean_phrase (py_str phrase)))"
    by (simp add: bn re_search_word_iff)
  have c: "tokenize_and_flag_organs (Str ''kidney stone'') = Inr (Num (push_bit 3 1))"
    using organ_kidney_stone by simp
  from m n a b c abdomen_pelvis_cluster organ_kidneystone show ?thesis by blast
qed

lemma mri_category:
  "fst (exam_categories ! 1) = ''MRI'' \<and> ''mri'' \<in> set (snd (exam_categories ! 1))"
  by (simp add: exam_categories_def)

lemma exam_mri_underscore: "map_exam_to_binary_flag (Str ''mri_'') = Inr (Num 0)"
  by code_simp

lemma spec_clean_mri_underscore: "spec_clean_phrase ''mri_'' = ''mri''"
  by (simp add: spec_clean_phrase_def lower_def lower_char_def replace_char_def is_alnum_def
      is_space_def ascii_lowercase_def ascii_uppercase_def latin1_lowercase_def
      latin1_uppercase_def ascii_digits_def latin1_other_alnum_def)

lemma spec_clean_kidney_underscore: "spec_clean_phrase ''kidney_'' = ''kidney''"
  by (simp add: spec_clean_phrase_def lower_def lower_char_def replace_char_def is_alnum_def
      is_space_def ascii_lowercase_def ascii_uppercase_def latin1_lowercase_def
      latin1_uppercase_def ascii_digits_def latin1_other_alnum_def)

lemma mri_whole_word: "occurs_as_whole_word ''mri'' ''mri''"
proof -
  have "re_search_word ''mri'' ''mri''" by code_simp
  then show ?thesis by (simp only: re_search_word_iff)
qed

lemma kidney_whole_word: "occurs_as_whole_word ''kidney'' ''kidney''"
proof -
  have "re_search_word ''kidney'' ''kidney''" by code_simp
  then show ?thesis by (simp only: re_search_word_iff)
qed

text \<open>
  Claim C3. The claim has the cleaning strip every character that is neither
  alphanumeric nor a space, and the comment in \<open>map_exam_to_binary_flag\<close> says "Remove
  punctuation"; the pattern \<open>[^\w\s]\<close> of both encoders keeps the underscore, which is a
  word character. On \<open>"mri_"\<close> the exam encoder returns 0: bit 1 (MRI) is clear, although the
  term "mri" of that category is a whole word of the input cleaned as the claim says. The
  organ encoder does the same on \<open>"kidney_"\<close>, where bit 3 (\<open>abdomen_pelvis\<close>) is clear.
\<close>

theorem taxonomy_underscore_failing_input:
  "map_exam_to_binary_flag (Str ''mri_'') = Inr (Num 0) \<and>
   \<not> bit (0::int) 1 \<and>
   fst (exam_categories ! 1) = ''MRI'' \<and>
   ''mri'' \<in> set (snd (exam_categories ! 1)) \<and>
   occurs_as_whole_word ''mri'' (spec_clean_phrase (py_str (Str ''mri_''))) \<and>
   tokenize_and_flag_organs (Str ''kidney_'') = Inr (Num 0) \<and>
   \<not> bit (0::int) 3 \<and>
   fst (organ_clusters ! 3) = ''abdomen_pelvis'' \<and>
   ''kidney'' \<in> set (snd (organ_clusters ! 3)) \<and>
   occurs_as_whole_word ''kidney'' (spec_clean_phrase (py_str (Str ''kidney_'')))"
proof -
  have m: "occurs_as_whole_word ''mri'' (spec_clean_phrase (py_str (Str ''mri_'')))"
    using mri_whole_word by (simp only: py_str.simps spec_clean_mri_underscore)
  have k: "occurs_as_whole_word ''kidney'' (spec_clean_phrase (py_str (Str ''kidney_'')))"
    using kidney_whole_word by (simp only: py_str.simps spec_clean_kidney_underscore)
  have z: "\<not> bit (0::int) 1" "\<not> bit (0::int) 3" by simp_all
  show ?thesis
    using m k z exam_mri_underscore organ_kidney_underscore mri_category
      abdomen_pelvis_cluster by blast
qed

text \<open>The encoders on characters outside ASCII: U+00E9 is a word character, so "head"
  followed by it is not a whole word, and U+00C9 is lower-cased to it.\<close>

lemma organ_head_e_acute:
  "tokenize_and_flag_organs (Str (''head'' @ [CHR 0xE9])) = Inr (Num 0) \<and>
   clean_phrase (''T'' @ [CHR 0xC9, CHR 0xD7] @ ''-x'') = ''t'' @ [CHR 0xE9] @ '' x''"
  by code_simp

lemma no_underscore_in_terms:
  "\<forall>term\<in>set (concat (map snd exam_categories) @ concat (map snd organ_clusters)).
     CHR ''_'' \<notin> set term"
  by (simp add: exam_categories_def organ_clusters_def)

lemma clean_phrase_chars: "c \<in> set (clean_phrase s) \<Longrightarrow> is_word c \<or> is_space c"
  by (simp add: clean_phrase_def)

lemma re_search_word_subset: "re_search_word term text \<Longrightarrow> set term \<subseteq> set text"
  unfolding re_search_word_iff occurs_as_whole_word_def by auto

text \<open>
  Claim C10. A configured trigger term with a character that is neither alphanumeric nor
  whitespace (such as "x-ray", "check-up" or "ct, x-ray") matches no cleaned input,
  whatever the input. On the input "x-ray" \<open>map_exam_to_binary_flag\<close> gives 0: no bit is
  set, not even that of "Radiography and X-Ray", which lists the term "x-ray".
\<close>

theorem punctuated_terms_never_match:
  "(\<forall>term\<in>set (concat (map snd exam_categories) @ concat (map snd organ_clusters)).
      (\<exists>c\<in>set term. \<not> is_alnum c \<and> \<not> is_space c) \<longrightarrow>
      (\<forall>phrase. \<not> re_search_word term (clean_phrase (py_str phrase)))) \<and>
   fst (exam_categories ! 3) = ''Radiography and X-Ray'' \<and>
   ''x-ray'' \<in> set (snd (exam_categories ! 3)) \<and>
   map_exam_to_binary_flag (Str ''x-ray'') = Inr (Num 0)"
proof -
  have "\<not> re_search_word w (clean_phrase (py_str phrase))"
    if t: "w \<in> set (concat (map snd exam_categories) @ concat (map snd organ_clusters))"
    and c: "c \<in> set w" "\<not> is_alnum c" "\<not> is_space c" for w c phrase
  proof
    assume "re_search_word w (clean_phrase (py_str phrase))"
    then have "c \<in> set (clean_phrase (py_str phrase))"
      using c(1) re_search_word_subset by blast
    then have "is_word c \<or> is_space c" by (rule clean_phrase_chars)
    with c have "c = CHR ''_''" by (simp add: is_word_def)
    with c(1) t no_underscore_in_terms show False by blast
  qed
  then have "\<forall>term\<in>set (concat (map snd exam_categories) @ concat (map snd organ_clusters)).
      (\<exists>c\<in>set term. \<not> is_alnum c \<and> \<not> is_space c) \<longrightarrow>
      (\<forall>phrase. \<not> re_search_word term (clean_phrase (py_str phrase)))"
    by blast
  then show ?thesis using radiography_category exam_x_ray by blast
qed

lemma check_up_is_term:
  "''check-up'' \<in> set (concat (map snd exam_categories) @ concat (map snd organ_clusters))"
  by (simp add: exam_categories_def)

lemma check_up_has_punctuation:
  "\<exists>c\<in>set ''check-up''. \<not> is_alnum c \<and> \<not> is_space c"
  by (simp add: is_alnum_def is_space_def ascii_lowercase_def ascii_uppercase_def
  latin1_lowercase_def latin1_uppercase_def ascii_digits_def
      latin1_other_alnum_def)

theorem punctuated_terms_never_match_witness:
  "\<not> re_search_word ''check-up'' (clean_phrase (py_str (Str ''general check-up'')))"
  using punctuated_terms_never_match check_up_is_term check_up_has_punctuation by blast

section \<open>Properties of the pipeline (\<open>process_data\<close>)\<close>

lemma map_exam_total: "\<exists>y. map_exam_to_binary_flag x = Inr y"
proof (cases "x = Null")
  case True
  then show ?thesis by (simp add: map_exam_to_binary_flag_def)
next
  case False
  from exam_flag_bits [OF this] show ?thesis by blast
qed

lemma tokenize_total: "\<exists>y. tokenize_and_flag_organs x = Inr y"
proof (cases "x = Null")
  case True
  then show ?thesis by (simp add: tokenize_and_flag_organs_def)
next
  case False
  from organ_flag_bits [OF this] show ?thesis by blast
qed

lemma series_apply_total:
  assumes "\<And>x. \<exists>y. f x = Inr y"
  shows "\<exists>ys. series_apply f xs = Inr ys \<and> length ys = length xs"
proof (induction xs)
  case Nil
  show ?case by simp
next
  case (Cons x xs)
  from assms obtain y where "f x = Inr y" by blast
  moreover from Cons.IH obtain ys where "series_apply f xs = Inr ys" "length ys = length xs"
    by blast
  ultimately show ?case by simp
qed

lemma standardize_contrast_map:
  "standardize_contrast column =
     map (\<lambda>v. if map_value contrast_standardization_map v = Null then v
               else map_value contrast_standardization_map v) column"
  by (simp add: standardize_contrast_def fillna_def series_map_def zip_map1 zip_same_conv_map)

lemma standardize_cell_idem:
  "(let w = (if map_value contrast_standardization_map v = Null then v
             else map_value contrast_standardization_map v)
    in if map_value contrast_standardization_map w = Null then w
       else map_value contrast_standardization_map w) =
   (if map_value contrast_standardization_map v = Null then v
    else map_value contrast_standardization_map v)"
  by (cases v) (simp_all add: map_value_def contrast_standardization_map_def Let_def)

lemma standardize_contrast_idem:
  "standardize_contrast (standardize_contrast column) = standardize_contrast column"
  using standardize_cell_idem by (simp add: standardize_contrast_map Let_def)

lemma process_data_success:
  "process_data df exam_column organ_column contrast_column = (df', Inr ()) \<longleftrightarrow>
     (\<exists>es fes os fos cs.
        map_of df exam_column = Some es \<and>
        series_apply map_exam_to_binary_flag es = Inr fes \<and>
        map_of (AList.update (exam_column @ ''_flags'') fes df) organ_column = Some os \<and>
        series_apply tokenize_and_flag_organs os = Inr fos \<and>
        map_of (AList.update (organ_column @ ''_flags'') fos
                  (AList.update (exam_column @ ''_flags'') fes df)) contrast_column = Some cs \<and>
        df' = AList.update (contrast_column @ ''_flags'')
                (series_map contrast_flag_map (standardize_contrast cs))
                (AList.update contrast_column (standardize_contrast cs)
                  (AList.update (organ_column @ ''_flags'') fos
                    (AList.update (exam_column @ ''_flags'') fes df))))"
  by (auto simp: process_data_def get_column_def set_column_def encode_binary_flags_contrast_def
      update_conv' Let_def split: option.splits sum.splits)

lemma exam_ct: "map_exam_to_binary_flag (Str ''ct'') = Inr (Num 1)"
  by code_simp

lemma exam_num_one: "map_exam_to_binary_flag (Num 1) = Inr (Num 0)"
  by code_simp

lemma exam_null: "map_exam_to_binary_flag Null = Inr Null"
  by (simp add: map_exam_to_binary_flag_def)

lemma organ_null: "tokenize_and_flag_organs Null = Inr Null"
  by (simp add: tokenize_and_flag_organs_def)

lemmas frame_simps =
  process_data_def get_column_def set_column_def encode_binary_flags_contrast_def
  standardize_contrast_def fillna_def series_map_def map_value_def
  contrast_standardization_map_def contrast_flag_map_def
  exam_ct exam_num_one exam_null organ_null

text \<open>
  Claim C2, as amended. \<open>process_data\<close> validates nothing up front: each field is looked
  up when its step runs (exam, then organ, then contrast), and a missing field raises a
  \<open>KeyError\<close> naming it at that point. Without the exam field the data frame is unchanged.
  With the exam field but without the organ field (which is not the exam flags field
  itself) the call fails after the exam flags field has been written for every record.
  With the exam and organ fields but without the contrast field (which is neither flags
  field, the organ field not being the exam flags field) the call fails after the exam
  flags and the organ flags fields have been written. \<open>check_columns\<close>, which
  \<open>process_data\<close> does not call, returns \<open>True\<close> when every required field is present and
  fails with a \<open>ValueError\<close> listing the missing fields otherwise.
\<close>

theorem process_missing_field:
  "(map_of df exam_column = None \<longrightarrow>
      process_data df exam_column organ_column contrast_column =
        (df, Inl (KeyError exam_column))) \<and>
   (\<forall>exams. map_of df exam_column = Some exams \<and> map_of df organ_column = None \<and>
            organ_column \<noteq> exam_column @ ''_flags'' \<longrightarrow>
      (\<exists>exam_flags. series_apply map_exam_to_binary_flag exams = Inr exam_flags \<and>
         length exam_flags = length exams \<and>
         process_data df exam_column organ_column contrast_column =
           (set_column (exam_column @ ''_flags'') exam_flags df, Inl (KeyError organ_column)))) \<and>
   (\<forall>exams organs.
      map_of df exam_column = Some exams \<and> map_of df organ_column = Some organs \<and>
      organ_column \<noteq> exam_column @ ''_flags'' \<and> map_of df contrast_column = None \<and>
      contrast_column \<noteq> exam_column @ ''_flags'' \<and>
      contrast_column \<noteq> organ_column @ ''_flags'' \<longrightarrow>
      (\<exists>exam_flags organ_flags.
         series_apply map_exam_to_binary_flag exams = Inr exam_flags \<and>
         length exam_flags = length exams \<and>
         series_apply tokenize_and_flag_organs organs = Inr organ_flags \<and>
         length organ_flags = length organs \<and>
         process_data df exam_column organ_column contrast_column =
           (set_column (organ_column @ ''_flags'') organ_flags
              (set_column (exam_column @ ''_flags'') exam_flags df),
            Inl (KeyError contrast_column)))) \<and>
   check_columns df required =
     (if set required \<subseteq> fst ` set df then Inr True
      else Inl (ValueError (filter (\<lambda>col. col \<notin> fst ` set df) required)))"
proof -
  have no_exam: "process_data df exam_column organ_column contrast_column =
        (df, Inl (KeyError exam_column))" if "map_of df exam_column = None"
    using that by (simp add: process_data_def get_column_def)
  have no_organ: "\<exists>exam_flags. series_apply map_exam_to_binary_flag exams = Inr exam_flags \<and>
         length exam_flags = length exams \<and>
         process_data df exam_column organ_column contrast_column =
           (set_column (exam_column @ ''_flags'') exam_flags df, Inl (KeyError organ_column))"
    if h: "map_of df exam_column = Some exams \<and> map_of df organ_column = None \<and>
           organ_column \<noteq> exam_column @ ''_flags''" for exams
  proof -
    from series_apply_total [of map_exam_to_binary_flag exams] map_exam_total
    obtain exam_flags where f: "series_apply map_exam_to_binary_flag exams = Inr exam_flags"
      "length exam_flags = length exams" by blast
    have "map_of (AList.update (exam_column @ ''_flags'') exam_flags df) organ_column = None"
      using h by (simp add: update_conv')
    then have "process_data df exam_column organ_column contrast_column =
           (set_column (exam_column @ ''_flags'') exam_flags df, Inl (KeyError organ_column))"
      using h f by (simp add: process_data_def get_column_def set_column_def)
    with f show ?thesis by blast
  qed
  have no_contrast: "\<exists>exam_flags organ_flags.
         series_apply map_exam_to_binary_flag exams = Inr exam_flags \<and>
         length exam_flags = length exams \<and>
         series_apply tokenize_and_flag_organs organs = Inr organ_flags \<and>
         length organ_flags = length organs \<and>
         process_data df exam_column organ_column contrast_column =
           (set_column (organ_column @ ''_flags'') organ_flags
              (set_column (exam_column @ ''_flags'') exam_flags df),
            Inl (KeyError contrast_column))"
    if h: "map_of df exam_column = Some exams \<and> map_of df organ_column = Some organs \<and>
      organ_column \<noteq> exam_column @ ''_flags'' \<and> map_of df contrast_column = None \<and>
      contrast_column \<noteq> exam_column @ ''_flags'' \<and>
      contrast_column \<noteq> organ_column @ ''_flags''" for exams organs
  proof -
    from series_apply_total [of map_exam_to_binary_flag exams] map_exam_total
    obtain exam_flags where f: "series_apply map_exam_to_binary_flag exams = Inr exam_flags"
      "length exam_flags = length exams" by blast
    from series_apply_total [of tokenize_and_flag_organs organs] tokenize_total
    obtain organ_flags where g: "series_apply tokenize_and_flag_organs organs = Inr organ_flags"
      "length organ_flags = length organs" by blast
    have o: "map_of (AList.update (exam_column @ ''_flags'') exam_flags df) organ_column
               = Some organs"
      using h by (simp add: update_conv')
    have c: "map_of (AList.update (organ_column @ ''_flags'') organ_flags
                      (AList.update (exam_column @ ''_flags'') exam_flags df)) contrast_column
               = None"
      using h by (simp add: update_conv')
    have "process_data df exam_column organ_column contrast_column =
           (set_column (organ_column @ ''_flags'') organ_flags
              (set_column (exam_column @ ''_flags'') exam_flags df),
            Inl (KeyError contrast_column))"
      using h f g o c by (simp add: process_data_def get_column_def set_column_def)
    with f g show ?thesis by blast
  qed
  have "filter (\<lambda>col. col \<notin> fst ` set df) required = [] \<longleftrightarrow> set required \<subseteq> fst ` set df"
    by (auto simp: filter_empty_conv)
  then have check: "check_columns df required =
     (if set required \<subseteq> fst ` set df then Inr True
      else Inl (ValueError (filter (\<lambda>col. col \<notin> fst ` set df) required)))"
    by (simp add: check_columns_def)
  from no_exam no_organ no_contrast check show ?thesis by blast
qed

theorem process_missing_field_witness:
  "process_data [(''exam'', [Null, Str ''ct''])] ''exam'' ''organ'' ''contrast'' =
     ([(''exam'', [Null, Str ''ct'']), (''exam_flags'', [Null, Num 1])], Inl (KeyError ''organ'')) \<and>
   process_data [(''organ'', [Null])] ''exam'' ''organ'' ''contrast'' =
     ([(''organ'', [Null])], Inl (KeyError ''exam'')) \<and>
   process_data [(''exam'', [Str ''ct'']), (''organ'', [Null])] ''exam'' ''organ'' ''contrast'' =
     ([(''exam'', [Str ''ct'']), (''organ'', [Null]), (''exam_flags'', [Num 1]),
       (''organ_flags'', [Null])], Inl (KeyError ''contrast''))"
proof -
  have a: "map_of [(''organ'', [Null])] ''exam'' = None" by simp
  have b: "map_of [(''exam'', [Null, Str ''ct''])] ''exam'' = Some [Null, Str ''ct''] \<and>
           map_of [(''exam'', [Null, Str ''ct''])] ''organ'' = None \<and>
           ''organ'' \<noteq> ''exam'' @ ''_flags''" by simp
  have c: "series_apply map_exam_to_binary_flag [Null, Str ''ct''] = Inr [Null, Num 1]"
    by (simp add: exam_ct exam_null)
  have d: "map_of [(''exam'', [Str ''ct'']), (''organ'', [Null])] ''exam'' = Some [Str ''ct''] \<and>
           map_of [(''exam'', [Str ''ct'']), (''organ'', [Null])] ''organ'' = Some [Null] \<and>
           ''organ'' \<noteq> ''exam'' @ ''_flags'' \<and>
           map_of [(''exam'', [Str ''ct'']), (''organ'', [Null])] ''contrast'' = None \<and>
           ''contrast'' \<noteq> ''exam'' @ ''_flags'' \<and> ''contrast'' \<noteq> ''organ'' @ ''_flags''"
    by simp
  have e: "series_apply map_exam_to_binary_flag [Str ''ct''] = Inr [Num 1]"
    "series_apply tokenize_and_flag_organs [Null] = Inr [Null]"
    by (simp_all add: exam_ct organ_null)
  from process_missing_field [of "[(''organ'', [Null])]" "''exam''" "''organ''" "''contrast''"] a
  have 1: "process_data [(''organ'', [Null])] ''exam'' ''organ'' ''contrast'' =
     ([(''organ'', [Null])], Inl (KeyError ''exam''))" by blast
  from process_missing_field [of "[(''exam'', [Null, Str ''ct''])]" "''exam''" "''organ''" "''contrast''"] b
  obtain exam_flags where "series_apply map_exam_to_binary_flag [Null, Str ''ct''] = Inr exam_flags"
    "process_data [(''exam'', [Null, Str ''ct''])] ''exam'' ''organ'' ''contrast'' =
           (set_column (''exam'' @ ''_flags'') exam_flags [(''exam'', [Null, Str ''ct''])],
            Inl (KeyError ''organ''))"
    by blast
  with c have 2: "process_data [(''exam'', [Null, Str ''ct''])] ''exam'' ''organ'' ''contrast'' =
     ([(''exam'', [Null, Str ''ct'']), (''exam_flags'', [Null, Num 1])], Inl (KeyError ''organ''))"
    by (simp add: set_column_def)
  from process_missing_field
    [of "[(''exam'', [Str ''ct'']), (''organ'', [Null])]" "''exam''" "''organ''" "''contrast''"] d
  obtain exam_flags organ_flags where
    "series_apply map_exam_to_binary_flag [Str ''ct''] = Inr exam_flags"
    "series_apply tokenize_and_flag_organs [Null] = Inr organ_flags"
    "process_data [(''exam'', [Str ''ct'']), (''organ'', [Null])] ''exam'' ''organ'' ''contrast'' =
       (set_column (''organ'' @ ''_flags'') organ_flags
          (set_column (''exam'' @ ''_flags'') exam_flags [(''exam'', [Str ''ct'']), (''organ'', [Null])]),
        Inl (KeyError ''contrast''))"
    by blast
  with e have 3:
    "process_data [(''exam'', [Str ''ct'']), (''organ'', [Null])] ''exam'' ''organ'' ''contrast'' =
     ([(''exam'', [Str ''ct'']), (''organ'', [Null]), (''exam_flags'', [Num 1]),
       (''organ_flags'', [Null])], Inl (KeyError ''contrast''))"
    by (simp add: set_column_def)
  from 2 1 3 show ?thesis by (intro conjI)
qed

text \<open>With the organ field missing, the call fails only after the exam flags were written:
  the data frame is not the one the call started with.\<close>

theorem process_missing_organ_counterexample:
  "map_of [(''exam'', [Str ''ct'']), (''contrast'', [Null])] ''organ'' = None \<and>
   process_data [(''exam'', [Str ''ct'']), (''contrast'', [Null])] ''exam'' ''organ'' ''contrast'' =
     ([(''exam'', [Str ''ct'']), (''contrast'', [Null]), (''exam_flags'', [Num 1])],
      Inl (KeyError ''organ'')) \<and>
   fst (process_data [(''exam'', [Str ''ct'']), (''contrast'', [Null])]
          ''exam'' ''organ'' ''contrast'') \<noteq>
     [(''exam'', [Str ''ct'']), (''contrast'', [Null])]"
  by (simp add: frame_simps)

text \<open>
  Claim C4, as amended. Let the contrast field differ from the exam and organ fields, and
  let none of the three fields be named as one of the three flag fields. If
  \<open>process_data\<close> succeeds with the data frame \<open>df'\<close>, then running it again on \<open>df'\<close> with
  the same field names succeeds and leaves \<open>df'\<close> as it is: the standardized contrast text,
  and the exam, organ and contrast flag fields keep their values. Standardizing a
  standardized column changes nothing.
\<close>

theorem process_idempotent:
  assumes run: "process_data df exam_column organ_column contrast_column = (df', Inr ())"
    and ce: "contrast_column \<noteq> exam_column" and co: "contrast_column \<noteq> organ_column"
    and e_in: "exam_column \<noteq> organ_column @ ''_flags''"
      "exam_column \<noteq> contrast_column @ ''_flags''"
    and o_in: "organ_column \<noteq> exam_column @ ''_flags''"
      "organ_column \<noteq> contrast_column @ ''_flags''"
    and c_in: "contrast_column \<noteq> exam_column @ ''_flags''"
      "contrast_column \<noteq> organ_column @ ''_flags''"
  shows "process_data df' exam_column organ_column contrast_column = (df', Inr ()) \<and>
         standardize_contrast (standardize_contrast col) = standardize_contrast col"
proof -
  let ?ef = "exam_column @ ''_flags''" and ?of = "organ_column @ ''_flags''"
    and ?cf = "contrast_column @ ''_flags''"
  from run obtain es fes os fos cs where
    es: "map_of df exam_column = Some es"
    and fes: "series_apply map_exam_to_binary_flag es = Inr fes"
    and os: "map_of (AList.update ?ef fes df) organ_column = Some os"
    and fos: "series_apply tokenize_and_flag_organs os = Inr fos"
    and cs: "map_of (AList.update ?of fos (AList.update ?ef fes df)) contrast_column = Some cs"
    and df': "df' = AList.update ?cf (series_map contrast_flag_map (standardize_contrast cs))
                (AList.update contrast_column (standardize_contrast cs)
                  (AList.update ?of fos (AList.update ?ef fes df)))"
    unfolding process_data_success by blast
  have ne: "exam_column \<noteq> ?ef" "organ_column \<noteq> ?of" "contrast_column \<noteq> ?cf" by simp_all
  have cf_ne: "?cf \<noteq> ?ef" "?cf \<noteq> ?of" using ce co by simp_all
  have m_e: "map_of df' exam_column = Some es"
    using es ne e_in ce by (simp add: df' update_conv')
  have m_o: "map_of df' organ_column = Some os"
    using os ne o_in co by (simp add: df' update_conv')
  have m_c: "map_of df' contrast_column = Some (standardize_contrast cs)"
    using ne c_in by (simp add: df' update_conv')
  have m_cf: "map_of df' ?cf = Some (series_map contrast_flag_map (standardize_contrast cs))"
    by (simp add: df' update_conv')
  have m_of: "map_of df' ?of = Some fos"
    using c_in cf_ne by (simp add: df' update_conv')
  have m_ef: "exam_column \<noteq> organ_column \<Longrightarrow> map_of df' ?ef = Some fes"
    using c_in cf_ne by (simp add: df' update_conv')
  have step12: "AList.update ?of fos (AList.update ?ef fes df') = df'"
  proof (cases "exam_column = organ_column")
    case True
    then have "AList.update ?of fos (AList.update ?ef fes df') = AList.update ?of fos df'"
      by simp
    also have "\<dots> = df'" using m_of by (rule update_triv)
    finally show ?thesis .
  next
    case False
    then have "AList.update ?ef fes df' = df'" using m_ef by (simp add: update_triv)
    then show ?thesis using m_of by (simp add: update_triv)
  qed
  have o1: "map_of (AList.update ?ef fes df') organ_column = Some os"
    using m_o o_in by (simp add: update_conv')
  have c2: "map_of (AList.update ?of fos (AList.update ?ef fes df')) contrast_column
              = Some (standardize_contrast cs)"
    unfolding step12 by (rule m_c)
  have step3: "AList.update contrast_column (standardize_contrast (standardize_contrast cs)) df' = df'"
    using m_c by (simp add: standardize_contrast_idem update_triv)
  have step4: "AList.update ?cf
                 (series_map contrast_flag_map (standardize_contrast (standardize_contrast cs)))
                 df' = df'"
    using m_cf by (simp add: standardize_contrast_idem update_triv)
  have "process_data df' exam_column organ_column contrast_column = (df', Inr ())"
    unfolding process_data_success
    using m_e fes o1 fos c2 step12 step3 step4 by (intro exI [of _ es] exI [of _ fes]
      exI [of _ os] exI [of _ fos] exI [of _ "standardize_contrast cs"]) simp
  then show ?thesis by (simp add: standardize_contrast_idem)
qed

text \<open>When the exam field is named as the contrast flags field, the first run overwrites
  the exam text with the contrast codes, and the second run computes the exam flags from
  those codes: the exam flags field changes from 1 to 0.\<close>

theorem process_rerun_counterexample:
  "process_data [(''c'', [Str '' with iv contrast'']), (''c_flags'', [Str ''ct'']), (''o'', [Null])]
      ''c_flags'' ''o'' ''c'' =
     ([(''c'', [Str ''with iv contrast'']), (''c_flags'', [Num 1]), (''o'', [Null]),
       (''c_flags_flags'', [Num 1]), (''o_flags'', [Null])], Inr ()) \<and>
   process_data [(''c'', [Str ''with iv contrast'']), (''c_flags'', [Num 1]), (''o'', [Null]),
       (''c_flags_flags'', [Num 1]), (''o_flags'', [Null])]
      ''c_flags'' ''o'' ''c'' =
     ([(''c'', [Str ''with iv contrast'']), (''c_flags'', [Num 1]), (''o'', [Null]),
       (''c_flags_flags'', [Num 0]), (''o_flags'', [Null])], Inr ())"
  by (simp add: frame_simps)

theorem process_idempotent_witness:
  "process_data
     [(''exam'', [Str ''ct'', Null]), (''organ'', [Null, Null]),
      (''contrast'', [Str ''with iv contrast '', Null]),
      (''exam_flags'', [Num 1, Null]), (''organ_flags'', [Null, Null]),
      (''contrast_flags'', [Num 1, Null])]
     ''exam'' ''organ'' ''contrast'' =
   ([(''exam'', [Str ''ct'', Null]), (''organ'', [Null, Null]),
      (''contrast'', [Str ''with iv contrast'', Null]),
      (''exam_flags'', [Num 1, Null]), (''organ_flags'', [Null, Null]),
      (''contrast_flags'', [Num 1, Null])], Inr ()) \<and>
   process_data
     [(''exam'', [Str ''ct'', Null]), (''organ'', [Null, Null]),
      (''contrast'', [Str ''with iv contrast'', Null]),
      (''exam_flags'', [Num 1, Null]), (''organ_flags'', [Null, Null]),
      (''contrast_flags'', [Num 1, Null])]
     ''exam'' ''organ'' ''contrast'' =
   ([(''exam'', [Str ''ct'', Null]), (''organ'', [Null, Null]),
      (''contrast'', [Str ''with iv contrast'', Null]),
      (''exam_flags'', [Num 1, Null]), (''organ_flags'', [Null, Null]),
      (''contrast_flags'', [Num 1, Null])], Inr ())"
proof -
  have run: "process_data
     [(''exam'', [Str ''ct'', Null]), (''organ'', [Null, Null]),
      (''contrast'', [Str ''with iv contrast '', Null]),
      (''exam_flags'', [Num 1, Null]), (''organ_flags'', [Null, Null]),
      (''contrast_flags'', [Num 1, Null])]
     ''exam'' ''organ'' ''contrast'' =
   ([(''exam'', [Str ''ct'', Null]), (''organ'', [Null, Null]),
      (''contrast'', [Str ''with iv contrast'', Null]),
      (''exam_flags'', [Num 1, Null]), (''organ_flags'', [Null, Null]),
      (''contrast_flags'', [Num 1, Null])], Inr ())"
    by (simp add: frame_simps)
  have "process_data
     [(''exam'', [Str ''ct'', Null]), (''organ'', [Null, Null]),
      (''contrast'', [Str ''with iv contrast'', Null]),
      (''exam_flags'', [Num 1, Null]), (''organ_flags'', [Null, Null]),
      (''contrast_flags'', [Num 1, Null])]
     ''exam'' ''organ'' ''contrast'' =
   ([(''exam'', [Str ''ct'', Null]), (''organ'', [Null, Null]),
      (''contrast'', [Str ''with iv contrast'', Null]),
      (''exam_flags'', [Num 1, Null]), (''organ_flags'', [Null, Null]),
      (''contrast_flags'', [Num 1, Null])], Inr ())"
    using process_idempotent [OF run] by simp
  with run show ?thesis by (rule conjI)
qed

end
